theory Spec2Isabelle
  imports Main "HOL-Library.Sublist"
begin

section \<open>Python and numpy primitives used by the module\<close>

datatype error =
    ValueError string
  | IntegrityError
  | TransportError
  | DependencyMissing
  | OSError
  | KeyError
  | ParseError

text \<open>Decimal rendering of Python integers, \<^verbatim>\<open>str(s)\<close>.\<close>

definition digit_char :: "nat \<Rightarrow> char" where
  "digit_char d = (''0123456789'' ! d)"

fun str_nat :: "nat \<Rightarrow> string" where
  "str_nat n = (if n < 10 then [digit_char n] else str_nat (n div 10) @ [digit_char (n mod 10)])"

declare str_nat.simps [simp del]

definition str_int :: "int \<Rightarrow> string" where
  "str_int i = (if i < 0 then CHR ''-'' # str_nat (nat (- i)) else str_nat (nat i))"

text \<open>\<^verbatim>\<open>sep.join(xs)\<close>.\<close>

fun str_join :: "string \<Rightarrow> string list \<Rightarrow> string" where
  "str_join sep [] = []"
| "str_join sep [x] = x"
| "str_join sep (x # y # ys) = x @ sep @ str_join sep (y # ys)"

text \<open>\<^verbatim>\<open>np.arange(n)\<close>: the integers \<open>0, ..., n - 1\<close>, empty when \<open>n \<le> 0\<close>.\<close>

definition np_arange :: "int \<Rightarrow> int list" where
  "np_arange n = map int [0 ..< nat n]"

text \<open>\<^verbatim>\<open>np.unique(ar)\<close>: the sorted distinct elements.\<close>

definition np_unique :: "int list \<Rightarrow> int list" where
  "np_unique ar = sort (remdups ar)"

text \<open>
  \<^verbatim>\<open>np.setdiff1d(ar1, ar2)\<close>: both arguments are made unique, then the elements of the
  first that do not occur in the second are kept, in order.
\<close>

definition np_setdiff1d :: "int list \<Rightarrow> int list \<Rightarrow> int list" where
  "np_setdiff1d ar1 ar2 =
     (let a1 = np_unique ar1; a2 = np_unique ar2 in filter (\<lambda>x. x \<notin> set a2) a1)"

section \<open>\<^verbatim>\<open>_check_subjects\<close>\<close>

definition unknown_message :: "int \<Rightarrow> string \<Rightarrow> string" where
  "unknown_message n_subjects subjects_list =
     ''Only subjects 0 to '' @ str_int (n_subjects - 1) @
     '' are available from this dataset. Unknown subjects: '' @ subjects_list"

definition check_subjects :: "int list \<Rightarrow> int \<Rightarrow> error + unit" where
  "check_subjects subjects n_subjects =
     (let valid_subjects = np_arange n_subjects;
          unknown_subjects = np_setdiff1d subjects valid_subjects
      in if length unknown_subjects > 0
         then (let subjects_list = str_join '', '' (map str_int unknown_subjects)
               in Inl (ValueError (unknown_message n_subjects subjects_list)))
         else Inr ())"

section \<open>Paths, the file system and the network\<close>

text \<open>\<^verbatim>\<open>os.path.join(a, b)\<close> on POSIX: an absolute second component replaces the first.\<close>

definition op_join :: "string \<Rightarrow> string \<Rightarrow> string" where
  "op_join a b =
     (if b \<noteq> [] \<and> hd b = CHR ''/'' then b
      else if a = [] \<or> last a = CHR ''/'' then a @ b
      else a @ ''/'' @ b)"

text \<open>
  \<^verbatim>\<open>os.path.dirname(p)\<close> on POSIX: everything up to the last slash; trailing slashes of
  that head are stripped unless the head consists of slashes only.
\<close>

definition op_dirname :: "string \<Rightarrow> string" where
  "op_dirname p =
     (let head = rev (dropWhile (\<lambda>c. c \<noteq> CHR ''/'') (rev p))
      in if head \<noteq> [] \<and> \<not> list_all (\<lambda>c. c = CHR ''/'') head
         then rev (dropWhile (\<lambda>c. c = CHR ''/'') (rev head))
         else head)"

text \<open>
  The mutable world: regular files with their contents, the directories that exist, and
  the log of URLs requested from the network (oldest first). Paths are compared as
  strings, without normalisation.
\<close>

record world =
  files :: "string \<rightharpoonup> string"
  dirs :: "string set"
  requests :: "string list"

definition op_isfile :: "world \<Rightarrow> string \<Rightarrow> bool" where
  "op_isfile w p = (files w p \<noteq> None)"

definition op_isdir :: "world \<Rightarrow> string \<Rightarrow> bool" where
  "op_isdir w p = (p \<in> dirs w)"

text \<open>The proper ancestors of a path, nearest first, by iterating \<^verbatim>\<open>dirname\<close>.\<close>

fun ancestors_upto :: "nat \<Rightarrow> string \<Rightarrow> string list" where
  "ancestors_upto 0 p = []"
| "ancestors_upto (Suc k) p =
     (let d = op_dirname p in if d = p \<or> d = [] then [] else d # ancestors_upto k d)"

definition ancestors :: "string \<Rightarrow> string list" where
  "ancestors p = ancestors_upto (length p) p"

text \<open>\<^verbatim>\<open>os.remove(p)\<close>: deletes a regular file, fails when there is none.\<close>

definition os_remove :: "string \<Rightarrow> world \<Rightarrow> (error + unit) \<times> world" where
  "os_remove p w =
     (if op_isfile w p then (Inr (), w\<lparr>files := (files w)(p := None)\<rparr>)
      else (Inl OSError, w))"

text \<open>
  \<^verbatim>\<open>os.makedirs(d)\<close>: creates the directory and its missing ancestors. It fails on the
  empty path, when the path already exists, and when an ancestor is a regular file.
\<close>

definition os_makedirs :: "string \<Rightarrow> world \<Rightarrow> (error + unit) \<times> world" where
  "os_makedirs d w =
     (if d = [] \<or> op_isfile w d \<or> op_isdir w d \<or> list_ex (op_isfile w) (ancestors d)
      then (Inl OSError, w)
      else (Inr (), w\<lparr>dirs := dirs w \<union> {d} \<union> set (ancestors d)\<rparr>))"

datatype hash_type = MD5 | SHA1

section \<open>Tables handled through pandas\<close>

text \<open>A categorical cell after \<^verbatim>\<open>rename_categories\<close>: a number left as it was, or a label.\<close>

datatype cell = IntCell int | StrCell string

text \<open>
  One line of the checksum manifest, as parsed by \<^verbatim>\<open>read_csv\<close> with
  \<^verbatim>\<open>names=['sha', 'fname']\<close>; an empty checksum field is missing (NaN).
\<close>

record sha1_row =
  sha :: "string option"
  fname :: string

text \<open>
  One row of \<^verbatim>\<open>SC-subjects.xls\<close> with its columns renamed; any cell may be missing. The
  sex column holds numbers as read and cells once recoded.
\<close>

record 's sc_row =
  sc_subject :: "int option"
  sc_night :: "int option"
  sc_age :: "int option"
  sc_sex :: "'s option"
  sc_lights_off :: "string option"

text \<open>A row written to \<^verbatim>\<open>age_records.csv\<close>, in the fixed column order of the source.\<close>

record age_record =
  a_subject :: int
  a_night :: int
  a_record_type :: "string option"
  a_age :: int
  a_sex :: cell
  a_lights_off :: string
  a_sha :: string
  a_fname :: string

text \<open>
  One row of \<^verbatim>\<open>ST-subjects.xls\<close> after the two-level header has been stacked into one
  row per subject and drug condition and the columns renamed.
\<close>

record st_row =
  st_subject :: "int option"
  st_age :: "int option"
  st_sex :: "int option"
  st_drug :: "string option"
  st_night_nr :: "int option"
  st_lights_off :: "string option"

text \<open>
  A row of the temazepam table after the outer merge with the manifest and the pivot on
  the record type: the fixed columns, and the \<^verbatim>\<open>sha_*\<close> / \<^verbatim>\<open>fname_*\<close> columns that
  depend on the record types found.
\<close>

record tem_row =
  t_subject :: "int option"
  t_age :: "int option"
  t_sex :: "int option"
  t_drug :: "string option"
  t_lights_off :: "string option"
  t_night_nr :: "int option"
  t_cols :: "(string \<times> string option) list"

text \<open>A row of the temazepam table as it is written.\<close>

record tem_record =
  r_subject :: int
  r_age :: "int option"
  r_sex :: "cell option"
  r_drug :: "string option"
  r_lights_off :: "string option"
  r_night_nr :: "int option"
  r_cols :: "(string \<times> string option) list"
  r_subject_orig :: "int option"

text \<open>
  The pandas module as the two builders use it. Parsing, the merge-and-pivot of the
  temazepam table and CSV rendering are library behaviour: they are parameters, and every
  theorem below holds for all of them.
\<close>

record pandas =
  read_csv :: "string \<Rightarrow> error + sha1_row list"
  read_excel_sc :: "string \<Rightarrow> error + int sc_row list"
  read_excel_st :: "string \<Rightarrow> error + st_row list"
  merge_unstack :: "(string \<times> sha1_row) list \<Rightarrow> (string \<times> st_row) list \<Rightarrow> error + tem_row list"
  to_csv_age :: "age_record list \<Rightarrow> string"
  to_csv_tem :: "tem_record list \<Rightarrow> string"

text \<open>What the process finds around it and does not change.\<close>

record env =
  remote :: "string \<rightharpoonup> string"
  hashfunc :: "hash_type \<Rightarrow> string \<Rightarrow> string"
  home :: string
  environ :: "string \<rightharpoonup> string"
  config :: "string \<rightharpoonup> string"
  pandas_module :: "pandas option"
  tempdir :: string

section \<open>Helpers of the package that the module imports\<close>

text \<open>
  Modelled from the spec: \<^verbatim>\<open>_fetch_file\<close> (imported from the package's utilities). It
  issues one request for the URL; an unreachable resource is a transport error; when a
  checksum is expected and the received bytes do not hash to it, it is an integrity
  error and no file is left in place; otherwise the bytes are stored at the destination.
\<close>

definition fetch_file ::
  "env \<Rightarrow> string \<Rightarrow> string \<Rightarrow> string option \<Rightarrow> hash_type \<Rightarrow> world \<Rightarrow> (error + unit) \<times> world" where
  "fetch_file e url file_name hash' htype w =
     (let w1 = w\<lparr>requests := requests w @ [url]\<rparr>
      in case remote e url of
           None \<Rightarrow> (Inl TransportError, w1)
         | Some bytes \<Rightarrow>
             (if hash' \<noteq> None \<and> hash' \<noteq> Some (hashfunc e htype bytes)
              then (Inl IntegrityError, w1)
              else (Inr (), w1\<lparr>files := (files w1)(file_name \<mapsto> bytes)\<rparr>)))"

text \<open>
  Modelled from the spec: \<^verbatim>\<open>_get_path\<close> (imported from the datasets utilities).
  Resolution order: the explicit argument, then the named environment or configuration
  variable, then the default user-data directory \<^verbatim>\<open><home>/mne_data\<close>.
\<close>

definition get_config :: "env \<Rightarrow> string \<Rightarrow> string option" where
  "get_config e key = (case environ e key of Some v \<Rightarrow> Some v | None \<Rightarrow> config e key)"

definition get_path :: "env \<Rightarrow> string option \<Rightarrow> string \<Rightarrow> string \<Rightarrow> string" where
  "get_path e path key name =
     (case path of
        Some p \<Rightarrow> p
      | None \<Rightarrow> (case get_config e key of
                   Some p \<Rightarrow> p
                 | None \<Rightarrow> op_join (home e) ''mne_data''))"

text \<open>
  Modelled from the spec: \<^verbatim>\<open>_check_pandas_installed\<close>. It returns the module, or fails
  with the dependency error when the library is absent.
\<close>

definition check_pandas_installed :: "env \<Rightarrow> error + pandas" where
  "check_pandas_installed e =
     (case pandas_module e of None \<Rightarrow> Inl DependencyMissing | Some pd \<Rightarrow> Inr pd)"

text \<open>
  Modelled from the spec: \<^verbatim>\<open>_TempDir\<close>. The temporary directory is created at the start
  of the operation and removed, with everything inside it, on every exit path.
\<close>

definition inside :: "string \<Rightarrow> string \<Rightarrow> bool" where
  "inside d p = prefix (op_join d []) p"

definition TempDir :: "env \<Rightarrow> world \<Rightarrow> string \<times> world" where
  "TempDir e w = (tempdir e, w\<lparr>dirs := insert (tempdir e) (dirs w)\<rparr>)"

definition rmtree :: "string \<Rightarrow> world \<Rightarrow> world" where
  "rmtree d w =
     w\<lparr>files := (\<lambda>p. if inside d p then None else files w p),
       dirs := {p \<in> dirs w. p \<noteq> d \<and> \<not> inside d p}\<rparr>"

section \<open>\<^verbatim>\<open>_fetch_one\<close>\<close>

definition BASE_URL :: string where
  "BASE_URL = ''https://physionet.org/pn4/sleep-edfx/''"

text \<open>
  The downloader is a parameter \<open>ff\<close>, called as \<^verbatim>\<open>_fetch_file(url, destination,
  hash_=hashsum, hash_type='sha1')\<close>. An exception of any step ends the call with the
  world as it is at that point.
\<close>

definition fetch_one ::
  "(string \<Rightarrow> string \<Rightarrow> string option \<Rightarrow> hash_type \<Rightarrow> world \<Rightarrow> (error + unit) \<times> world) \<Rightarrow>
   string \<Rightarrow> string \<Rightarrow> string \<Rightarrow> bool \<Rightarrow> world \<Rightarrow> (error + string) \<times> world" where
  "fetch_one ff fname' hashsum path force_update w =
     (let url = BASE_URL @ ''/'' @ fname';
          destination = op_join path fname'
      in if \<not> op_isfile w destination \<or> force_update then
           (case (if op_isfile w destination then os_remove destination w else (Inr (), w)) of
              (Inl err, w1) \<Rightarrow> (Inl err, w1)
            | (Inr _, w1) \<Rightarrow>
                (case (if \<not> op_isdir w1 (op_dirname destination)
                       then os_makedirs (op_dirname destination) w1 else (Inr (), w1)) of
                   (Inl err, w2) \<Rightarrow> (Inl err, w2)
                 | (Inr _, w2) \<Rightarrow>
                     (case ff url destination (Some hashsum) SHA1 w2 of
                        (Inl err, w3) \<Rightarrow> (Inl err, w3)
                      | (Inr _, w3) \<Rightarrow> (Inr destination, w3))))
         else (Inr destination, w))"

section \<open>\<^verbatim>\<open>_data_path\<close>\<close>

text \<open>The arguments \<^verbatim>\<open>force_update\<close> and \<^verbatim>\<open>update_path\<close> are accepted and not used.\<close>

definition data_path :: "env \<Rightarrow> string option \<Rightarrow> bool \<Rightarrow> bool option \<Rightarrow> string" where
  "data_path e path force_update update_path =
     (let key = ''PHYSIONET_SLEEP_PATH'';
          name = ''PHYSIONET_SLEEP'';
          path' = get_path e path key name
      in op_join path' ''physionet-sleep-data'')"

section \<open>String and table operations of the builders\<close>

text \<open>\<^verbatim>\<open>s.split(c)\<close> for a one-character separator: never empty, \<^verbatim>\<open>''.split(c) == ['']\<close>.\<close>

fun split_on :: "char \<Rightarrow> string \<Rightarrow> string list" where
  "split_on c [] = [[]]"
| "split_on c (x # xs) =
     (if x = c then [] # split_on c xs
      else (case split_on c xs of p # ps \<Rightarrow> (x # p) # ps | [] \<Rightarrow> [[x]]))"

text \<open>The first token of \<^verbatim>\<open>s.split()\<close>, which splits on runs of ASCII whitespace.\<close>

definition is_space :: "char \<Rightarrow> bool" where
  "is_space c = (c \<in> set [CHR '' '', CHR 0x09, CHR 0x0A, CHR 0x0B, CHR 0x0C, CHR 0x0D])"

definition first_token :: "string \<Rightarrow> string option" where
  "first_token s =
     (let t = takeWhile (\<lambda>c. \<not> is_space c) (dropWhile is_space s)
      in if t = [] then None else Some t)"

text \<open>
  The format fields \<^verbatim>\<open>{0:02d}\<close> (sign-aware zero padding to width two) and
  \<^verbatim>\<open>{1:1d}\<close> (width one, so the plain decimal).
\<close>

definition fmt_02d :: "int \<Rightarrow> string" where
  "fmt_02d s = (if 0 \<le> s \<and> s < 10 then CHR ''0'' # str_int s else str_int s)"

definition fmt_1d :: "int \<Rightarrow> string" where
  "fmt_1d n = str_int n"

text \<open>
  \<^verbatim>\<open>[prefix{0:02d}{1:1d}.format(s, n) for s, n in zip(...)]\<close>: formatting with \<^verbatim>\<open>d\<close>
  raises \<^verbatim>\<open>ValueError\<close> on a column that holds a missing value (a float column).
\<close>

fun format_id :: "string \<Rightarrow> int option \<Rightarrow> int option \<Rightarrow> string option" where
  "format_id pre (Some s) (Some n) = Some (pre @ fmt_02d s @ fmt_1d n)"
| "format_id pre _ _ = None"

definition format_ids :: "('r \<Rightarrow> string option) \<Rightarrow> 'r list \<Rightarrow> error + (string \<times> 'r) list" where
  "format_ids mk data =
     (case those (map mk data) of
        None \<Rightarrow> Inl (ValueError ''Unknown format code d for object of type float'')
      | Some ids \<Rightarrow> Inr (zip ids data))"

text \<open>
  The manifest rows of one dataset variant: the file name starts with the variant's
  prefix and ends with \<^verbatim>\<open>edf\<close>; the id of a row is \<^verbatim>\<open>name[:6]\<close>.
\<close>

definition select_records :: "string \<Rightarrow> sha1_row list \<Rightarrow> (string \<times> sha1_row) list" where
  "select_records pre sha1_df =
     (let select_age_records = (\<lambda>r. prefix pre (fname r) \<and> suffix ''edf'' (fname r));
          sha1_df = filter select_age_records sha1_df
      in map (\<lambda>r. (take 6 (fname r), r)) sha1_df)"

text \<open>
  \<^verbatim>\<open>cat.rename_categories(labels)\<close> on one value: a category that the dictionary names
  gets its label, any other stays as it is.
\<close>

definition rename_categories :: "(int \<rightharpoonup> string) \<Rightarrow> int \<Rightarrow> cell" where
  "rename_categories labels c = (case labels c of Some l \<Rightarrow> StrCell l | None \<Rightarrow> IntCell c)"

definition age_sex_labels :: "int \<rightharpoonup> string" where
  "age_sex_labels = [1 \<mapsto> ''female'', 2 \<mapsto> ''male'']"

definition temazepam_sex_labels :: "int \<rightharpoonup> string" where
  "temazepam_sex_labels = [1 \<mapsto> ''male'', 2 \<mapsto> ''female'']"

text \<open>
  \<^verbatim>\<open>left.set_index('id').join(right.set_index('id'))\<close>: a left join. Every left row
  appears, in order, once per right row with its id, or once with the right columns
  missing when there is none.
\<close>

definition left_join :: "(string \<times> 'a) list \<Rightarrow> (string \<times> 'b) list \<Rightarrow> ('a \<times> 'b option) list" where
  "left_join l r =
     concat (map (\<lambda>(k, a). case filter (\<lambda>(k', b). k' = k) r of
                               [] \<Rightarrow> [(a, None)]
                             | ms \<Rightarrow> map (\<lambda>(k', b). (a, Some b)) ms) l)"

text \<open>Reading a downloaded file with a parser of the library; a missing file is an error.\<close>

definition pd_read :: "(string \<Rightarrow> error + 'a) \<Rightarrow> string option \<Rightarrow> error + 'a" where
  "pd_read parse content = (case content of None \<Rightarrow> Inl OSError | Some c \<Rightarrow> parse c)"

text \<open>Sequencing of steps that may raise.\<close>

definition and_then :: "error + 'a \<Rightarrow> ('a \<Rightarrow> error + 'b) \<Rightarrow> error + 'b" where
  "and_then m k = (case m of Inl err \<Rightarrow> Inl err | Inr x \<Rightarrow> k x)"

section \<open>\<^verbatim>\<open>_update_sleep_age_records\<close>\<close>

definition recode_sex_age :: "int sc_row \<Rightarrow> cell sc_row" where
  "recode_sex_age r =
     \<lparr>sc_subject = sc_subject r, sc_night = sc_night r, sc_age = sc_age r,
      sc_sex = map_option (rename_categories age_sex_labels) (sc_sex r),
      sc_lights_off = sc_lights_off r\<rparr>"

text \<open>\<^verbatim>\<open>dropna()\<close> after the join: a row stays when none of its cells is missing.\<close>

fun complete_age :: "cell sc_row \<times> sha1_row option \<Rightarrow> age_record option" where
  "complete_age (d, s) =
     (case (sc_subject d, sc_night d, sc_age d, sc_sex d, sc_lights_off d, s) of
        (Some su, Some n, Some ag, Some sx, Some lo, Some sr) \<Rightarrow>
          (case sha sr of
             Some h \<Rightarrow>
               Some \<lparr>a_subject = su, a_night = n, a_record_type = None, a_age = ag, a_sex = sx,
                     a_lights_off = lo, a_sha = h, a_fname = fname sr\<rparr>
           | None \<Rightarrow> None)
      | _ \<Rightarrow> None)"

text \<open>
  \<^verbatim>\<open>fname.str.split('-', expand=True)[1].str.split('.', expand=True)[0]\<close>: the expanded
  frame has as many columns as the longest split, so column 1 is a \<^verbatim>\<open>KeyError\<close> when
  no name has a second piece; a row whose name has none gets a missing value.
\<close>

definition record_type_of :: "string \<Rightarrow> string option" where
  "record_type_of name =
     (case split_on CHR ''-'' name of
        p0 # p1 # ps \<Rightarrow> (case split_on CHR ''.'' p1 of q # qs \<Rightarrow> Some q | [] \<Rightarrow> None)
      | _ \<Rightarrow> None)"

definition record_types :: "age_record list \<Rightarrow> error + age_record list" where
  "record_types data =
     (if list_ex (\<lambda>r. 2 \<le> length (split_on CHR ''-'' (a_fname r))) data
      then Inr (map (\<lambda>r. r\<lparr>a_record_type := record_type_of (a_fname r)\<rparr>) data)
      else Inl KeyError)"

text \<open>Lines 160 to 187: the table from the two downloaded files.\<close>

definition age_table :: "pandas \<Rightarrow> string option \<Rightarrow> string option \<Rightarrow> error + age_record list" where
  "age_table pd sha1sums subjects =
     and_then (pd_read (read_csv pd) sha1sums) (\<lambda>sha1_df.
     let sha1_df = select_records ''SC'' sha1_df in
     and_then (pd_read (read_excel_sc pd) subjects) (\<lambda>data.
     let data = map recode_sex_age data in
     and_then (format_ids (\<lambda>r. format_id ''SC4'' (sc_subject r) (sc_night r)) data) (\<lambda>data.
     let data = List.map_filter complete_age (left_join data sha1_df) in
     record_types data)))"

text \<open>
  The two downloads into the temporary directory, the table, and last the write of the
  CSV file. The downloader is the parameter \<open>ff\<close>.
\<close>

definition age_body ::
  "(string \<Rightarrow> string \<Rightarrow> string option \<Rightarrow> hash_type \<Rightarrow> world \<Rightarrow> (error + unit) \<times> world) \<Rightarrow>
   pandas \<Rightarrow> string \<Rightarrow> string \<Rightarrow> world \<Rightarrow> (error + unit) \<times> world" where
  "age_body ff pd tmp csv w =
     (let sha1sums_url = BASE_URL @ ''SHA1SUMS'';
          sha1sums_fname = op_join tmp ''sha1sums''
      in case ff sha1sums_url sha1sums_fname None MD5 w of
           (Inl err, w1) \<Rightarrow> (Inl err, w1)
         | (Inr _, w1) \<Rightarrow>
             (let subjects_url = BASE_URL @ ''SC-subjects.xls'';
                  subjects_fname = op_join tmp ''SC-subjects.xls''
              in case ff subjects_url subjects_fname
                        (Some ''0ba6650892c5d33a8e2b3f62ce1cc9f30438c54f'') SHA1 w1 of
                   (Inl err, w2) \<Rightarrow> (Inl err, w2)
                 | (Inr _, w2) \<Rightarrow>
                     (case age_table pd (files w2 sha1sums_fname) (files w2 subjects_fname) of
                        Inl err \<Rightarrow> (Inl err, w2)
                      | Inr data \<Rightarrow>
                          (Inr (), w2\<lparr>files := (files w2)(csv \<mapsto> to_csv_age pd data)\<rparr>))))"

definition update_sleep_age_records ::
  "(string \<Rightarrow> string \<Rightarrow> string option \<Rightarrow> hash_type \<Rightarrow> world \<Rightarrow> (error + unit) \<times> world) \<Rightarrow>
   env \<Rightarrow> string \<Rightarrow> world \<Rightarrow> (error + unit) \<times> world" where
  "update_sleep_age_records ff e csv w =
     (case check_pandas_installed e of
        Inl err \<Rightarrow> (Inl err, w)
      | Inr pd \<Rightarrow>
          (case TempDir e w of
             (tmp, w0) \<Rightarrow> (case age_body ff pd tmp csv w0 of (res, w') \<Rightarrow> (res, rmtree tmp w'))))"

section \<open>\<^verbatim>\<open>_update_sleep_temazepam_records\<close>\<close>

text \<open>
  \<^verbatim>\<open>data['drug'].str.split(expand=True)[0]\<close>: the first token of each label, missing
  for a row without one, and a \<^verbatim>\<open>KeyError\<close> when no row has a token.
\<close>

definition drug_of :: "string option \<Rightarrow> string option" where
  "drug_of d = (case d of None \<Rightarrow> None | Some s \<Rightarrow> first_token s)"

text \<open>
  Lines 130 to 135 on the row at position \<open>i\<close> of the table, whose index is
  \<open>0, 1, 2, ...\<close> after \<^verbatim>\<open>reset_index\<close>: the sex recoded, the drug label cut to its
  first token, the subject number kept as \<^verbatim>\<open>subject_orig\<close> and replaced by
  \<^verbatim>\<open>index // 2\<close>.
\<close>

definition massage_temazepam :: "nat \<times> tem_row \<Rightarrow> tem_record" where
  "massage_temazepam ir =
     (case ir of (i, r) \<Rightarrow>
        \<lparr>r_subject = int i div 2,
         r_age = t_age r,
         r_sex = map_option (rename_categories temazepam_sex_labels) (t_sex r),
         r_drug = drug_of (t_drug r),
         r_lights_off = t_lights_off r,
         r_night_nr = t_night_nr r,
         r_cols = t_cols r,
         r_subject_orig = t_subject r\<rparr>)"

text \<open>\<^verbatim>\<open>dropna(inplace=True)\<close>: the rows with a missing cell in any column go.\<close>

definition complete_temazepam :: "tem_record \<Rightarrow> bool" where
  "complete_temazepam r =
     (r_age r \<noteq> None \<and> r_sex r \<noteq> None \<and> r_drug r \<noteq> None \<and> r_lights_off r \<noteq> None \<and>
      r_night_nr r \<noteq> None \<and> r_subject_orig r \<noteq> None \<and> list_all (\<lambda>(c, v). v \<noteq> None) (r_cols r))"

definition finish_temazepam :: "tem_row list \<Rightarrow> error + tem_record list" where
  "finish_temazepam data =
     (if list_ex (\<lambda>r. drug_of (t_drug r) \<noteq> None) data
      then Inr (filter complete_temazepam (map massage_temazepam (enumerate 0 data)))
      else Inl KeyError)"

text \<open>Lines 97 to 137: the table from the two downloaded files.\<close>

definition temazepam_table ::
  "pandas \<Rightarrow> string option \<Rightarrow> string option \<Rightarrow> error + tem_record list" where
  "temazepam_table pd sha1sums subjects =
     and_then (pd_read (read_csv pd) sha1sums) (\<lambda>sha1_df.
     let sha1_df = select_records ''ST'' sha1_df in
     and_then (pd_read (read_excel_st pd) subjects) (\<lambda>data.
     and_then (format_ids (\<lambda>r. format_id ''ST7'' (st_subject r) (st_night_nr r)) data) (\<lambda>data.
     and_then (merge_unstack pd sha1_df data) (\<lambda>data.
     finish_temazepam data))))"

definition temazepam_body ::
  "(string \<Rightarrow> string \<Rightarrow> string option \<Rightarrow> hash_type \<Rightarrow> world \<Rightarrow> (error + unit) \<times> world) \<Rightarrow>
   pandas \<Rightarrow> string \<Rightarrow> string \<Rightarrow> world \<Rightarrow> (error + unit) \<times> world" where
  "temazepam_body ff pd tmp csv w =
     (let sha1sums_url = BASE_URL @ ''SHA1SUMS'';
          sha1sums_fname = op_join tmp ''sha1sums''
      in case ff sha1sums_url sha1sums_fname None MD5 w of
           (Inl err, w1) \<Rightarrow> (Inl err, w1)
         | (Inr _, w1) \<Rightarrow>
             (let subjects_url = BASE_URL @ ''ST-subjects.xls'';
                  subjects_fname = op_join tmp ''ST-subjects.xls''
              in case ff subjects_url subjects_fname
                        (Some ''f52fffe5c18826a2bd4c5d5cb375bb4a9008c885'') SHA1 w1 of
                   (Inl err, w2) \<Rightarrow> (Inl err, w2)
                 | (Inr _, w2) \<Rightarrow>
                     (case temazepam_table pd (files w2 sha1sums_fname) (files w2 subjects_fname) of
                        Inl err \<Rightarrow> (Inl err, w2)
                      | Inr data \<Rightarrow>
                          (Inr (), w2\<lparr>files := (files w2)(csv \<mapsto> to_csv_tem pd data)\<rparr>))))"

definition update_sleep_temazepam_records ::
  "(string \<Rightarrow> string \<Rightarrow> string option \<Rightarrow> hash_type \<Rightarrow> world \<Rightarrow> (error + unit) \<times> world) \<Rightarrow>
   env \<Rightarrow> string \<Rightarrow> world \<Rightarrow> (error + unit) \<times> world" where
  "update_sleep_temazepam_records ff e csv w =
     (case check_pandas_installed e of
        Inl err \<Rightarrow> (Inl err, w)
      | Inr pd \<Rightarrow>
          (case TempDir e w of
             (tmp, w0) \<Rightarrow>
               (case temazepam_body ff pd tmp csv w0 of (res, w') \<Rightarrow> (res, rmtree tmp w'))))"

section \<open>Conditions on the surroundings\<close>

text \<open>
  A downloader that stays in the directory of its destination: whatever directory holds
  the destination, no file outside of it changes.
\<close>

definition stays_inside ::
  "(string \<Rightarrow> string \<Rightarrow> string option \<Rightarrow> hash_type \<Rightarrow> world \<Rightarrow> (error + unit) \<times> world) \<Rightarrow> bool" where
  "stays_inside ff =
     (\<forall>d url dst hs ht w p.
        inside d dst \<longrightarrow> \<not> inside d p \<longrightarrow> files (snd (ff url dst hs ht w)) p = files w p)"

section \<open>Concrete surroundings used to exercise the definitions\<close>

definition example_manifest :: "sha1_row list" where
  "example_manifest =
     [\<lparr>sha = Some ''adabd3b01fc7bb75c523a974f38ee3ae4e57b40f'', fname = ''SC4001E0-PSG.edf''\<rparr>,
      \<lparr>sha = Some ''21c998eadc8b1e3ea6727d3585186b8f76e7e70b'', fname = ''SC4001EC-Hypnogram.edf''\<rparr>,
      \<lparr>sha = Some ''0ba6650892c5d33a8e2b3f62ce1cc9f30438c54f'', fname = ''SC-subjects.xls''\<rparr>,
      \<lparr>sha = Some ''b023f1c4e4e3d2c0fe35bf2b3782e2ee1e4a5c6d'', fname = ''ST7011J0-PSG.edf''\<rparr>]"

definition example_sc_rows :: "int sc_row list" where
  "example_sc_rows =
     [\<lparr>sc_subject = Some 0, sc_night = Some 1, sc_age = Some 33, sc_sex = Some 1,
       sc_lights_off = Some ''00:38:00''\<rparr>,
      \<lparr>sc_subject = Some 0, sc_night = Some 2, sc_age = Some 33, sc_sex = Some 1,
       sc_lights_off = Some ''21:57:00''\<rparr>]"

definition example_st_rows :: "st_row list" where
  "example_st_rows =
     [\<lparr>st_subject = Some 1, st_age = Some 60, st_sex = Some 1, st_drug = Some ''Placebo night'',
       st_night_nr = Some 1, st_lights_off = Some ''23:01:00''\<rparr>]"

text \<open>A pivoted temazepam table of two subjects; the first subject's recordings are missing.\<close>

definition example_tem_rows :: "tem_row list" where
  "example_tem_rows =
     [\<lparr>t_subject = Some 1, t_age = Some 60, t_sex = Some 1, t_drug = Some ''Placebo night'',
       t_lights_off = Some ''23:01:00'', t_night_nr = Some 1,
       t_cols = [(''sha_PSG'', None), (''fname_PSG'', None)]\<rparr>,
      \<lparr>t_subject = Some 1, t_age = Some 60, t_sex = Some 1, t_drug = Some ''Temazepam night'',
       t_lights_off = Some ''23:48:00'', t_night_nr = Some 2,
       t_cols = [(''sha_PSG'', None), (''fname_PSG'', None)]\<rparr>,
      \<lparr>t_subject = Some 2, t_age = Some 35, t_sex = Some 2, t_drug = Some ''Temazepam night'',
       t_lights_off = Some ''00:00:00'', t_night_nr = Some 1,
       t_cols = [(''sha_PSG'', Some ''8b135afa7fb93bb5f1998fda50355944777c245e''),
                 (''fname_PSG'', Some ''ST7021J0-PSG.edf'')]\<rparr>,
      \<lparr>t_subject = Some 2, t_age = Some 35, t_sex = Some 2, t_drug = Some ''Placebo night'',
       t_lights_off = Some ''23:27:00'', t_night_nr = Some 2,
       t_cols = [(''sha_PSG'', Some ''0ce00a6ef3f3576794fc2ad5d3ff3cc2a8d23cf3''),
                 (''fname_PSG'', Some ''ST7022J0-PSG.edf'')]\<rparr>]"

text \<open>The age table that the example manifest and spreadsheet give.\<close>

definition example_age_record :: age_record where
  "example_age_record =
     \<lparr>a_subject = 0, a_night = 1, a_record_type = Some ''PSG'', a_age = 33,
      a_sex = StrCell ''female'', a_lights_off = ''00:38:00'',
      a_sha = ''adabd3b01fc7bb75c523a974f38ee3ae4e57b40f'', a_fname = ''SC4001E0-PSG.edf''\<rparr>"

definition example_age_records :: "age_record list" where
  "example_age_records =
     [example_age_record,
      \<lparr>a_subject = 0, a_night = 1, a_record_type = Some ''Hypnogram'', a_age = 33,
       a_sex = StrCell ''female'', a_lights_off = ''00:38:00'',
       a_sha = ''21c998eadc8b1e3ea6727d3585186b8f76e7e70b'', a_fname = ''SC4001EC-Hypnogram.edf''\<rparr>]"

text \<open>What is left of the example temazepam table when it is written.\<close>

definition example_tem_record :: tem_record where
  "example_tem_record =
     \<lparr>r_subject = 1, r_age = Some 35, r_sex = Some (StrCell ''female''), r_drug = Some ''Temazepam'',
      r_lights_off = Some ''00:00:00'', r_night_nr = Some 1,
      r_cols = [(''sha_PSG'', Some ''8b135afa7fb93bb5f1998fda50355944777c245e''),
                (''fname_PSG'', Some ''ST7021J0-PSG.edf'')],
      r_subject_orig = Some 2\<rparr>"

definition example_tem_records :: "tem_record list" where
  "example_tem_records =
     [example_tem_record,
      \<lparr>r_subject = 1, r_age = Some 35, r_sex = Some (StrCell ''female''), r_drug = Some ''Placebo'',
       r_lights_off = Some ''23:27:00'', r_night_nr = Some 2,
       r_cols = [(''sha_PSG'', Some ''0ce00a6ef3f3576794fc2ad5d3ff3cc2a8d23cf3''),
                 (''fname_PSG'', Some ''ST7022J0-PSG.edf'')],
       r_subject_orig = Some 2\<rparr>]"

definition example_pandas :: pandas where
  "example_pandas =
     \<lparr>read_csv = (\<lambda>c. if c = ''manifest-bytes'' then Inr example_manifest else Inl ParseError),
      read_excel_sc = (\<lambda>c. if c = ''sc-xls-bytes'' then Inr example_sc_rows else Inl ParseError),
      read_excel_st = (\<lambda>c. if c = ''st-xls-bytes'' then Inr example_st_rows else Inl ParseError),
      merge_unstack = (\<lambda>sha1_df data. Inr example_tem_rows),
      to_csv_age = (\<lambda>data. concat (map (\<lambda>r. a_fname r @ '';'') data)),
      to_csv_tem = (\<lambda>data. concat (map (\<lambda>r. str_int (r_subject r) @ '';'') data))\<rparr>"

definition example_remote :: "string \<rightharpoonup> string" where
  "example_remote =
     [''https://physionet.org/pn4/sleep-edfx//SC4001E0-PSG.edf'' \<mapsto> ''edf-bytes'',
      ''https://physionet.org/pn4/sleep-edfx/SHA1SUMS'' \<mapsto> ''manifest-bytes'',
      ''https://physionet.org/pn4/sleep-edfx/SC-subjects.xls'' \<mapsto> ''sc-xls-bytes'',
      ''https://physionet.org/pn4/sleep-edfx/ST-subjects.xls'' \<mapsto> ''st-xls-bytes'']"

definition example_hashfunc :: "hash_type \<Rightarrow> string \<Rightarrow> string" where
  "example_hashfunc t bytes =
     (if t = SHA1 \<and> bytes = ''sc-xls-bytes'' then ''0ba6650892c5d33a8e2b3f62ce1cc9f30438c54f''
      else if t = SHA1 \<and> bytes = ''st-xls-bytes'' then ''f52fffe5c18826a2bd4c5d5cb375bb4a9008c885''
      else (case t of MD5 \<Rightarrow> ''md5:'' | SHA1 \<Rightarrow> ''sha1:'') @ bytes)"

definition example_env :: env where
  "example_env =
     \<lparr>remote = example_remote,
      hashfunc = example_hashfunc,
      home = ''/home/user'',
      environ = Map.empty,
      config = Map.empty,
      pandas_module = Some example_pandas,
      tempdir = ''/tmp/tmp_mne_tempdir_0''\<rparr>"

definition empty_world :: world where
  "empty_world = \<lparr>files = Map.empty, dirs = {}, requests = []\<rparr>"

definition cached_world :: world where
  "cached_world =
     \<lparr>files = [''/data/SC4001E0-PSG.edf'' \<mapsto> ''stale''], dirs = {''/data''}, requests = []\<rparr>"

text \<open>A world that holds an earlier CSV file.\<close>

definition csv_world :: world where
  "csv_world =
     \<lparr>files = [''/pkg/age_records.csv'' \<mapsto> ''old-table''], dirs = {''/pkg''}, requests = []\<rparr>"

text \<open>The same surroundings with a spreadsheet that no longer matches its checksum.\<close>

definition garbled_env :: env where
  "garbled_env =
     example_env\<lparr>remote :=
       example_remote(''https://physionet.org/pn4/sleep-edfx/SC-subjects.xls'' \<mapsto> ''garbled'',
                      ''https://physionet.org/pn4/sleep-edfx/ST-subjects.xls'' \<mapsto> ''garbled'')\<rparr>"

text \<open>The same surroundings without the pandas library.\<close>

definition bare_env :: env where
  "bare_env = example_env\<lparr>pandas_module := None\<rparr>"

section \<open>The subject validator\<close>

lemma set_np_arange: "set (np_arange n) = {0 ..< n}"
proof (cases "0 \<le> n")
  case True
  have "int ` {0 ..< nat n} = {int 0 ..< int (nat n)}"
    by (rule image_int_atLeastLessThan)
  with True show ?thesis by (simp add: np_arange_def)
next
  case False
  then show ?thesis by (simp add: np_arange_def)
qed

lemma set_np_unique: "set (np_unique ar) = set ar"
  by (simp add: np_unique_def)

lemma set_np_setdiff1d: "set (np_setdiff1d ar1 ar2) = set ar1 - set ar2"
  by (auto simp: np_setdiff1d_def Let_def set_np_unique)



lemma unknown_subjects_set:
  "set (np_setdiff1d subjects (np_arange n)) = {s \<in> set subjects. s < 0 \<or> n \<le> s}"
  by (auto simp: set_np_setdiff1d set_np_arange)

text \<open>
  Claim C3. For every requested index list and subject count, \<^verbatim>\<open>_check_subjects\<close> raises
  (a \<^verbatim>\<open>ValueError\<close>, and nothing else) exactly when some requested index is below 0 or at
  least the subject count. When every index lies in the range, the empty request
  included, it returns; the function takes and returns no state, so it has no effect.
\<close>

theorem check_subjects_raises_iff:
  "(check_subjects subjects n_subjects = Inr () \<longleftrightarrow> (\<forall>s \<in> set subjects. 0 \<le> s \<and> s < n_subjects)) \<and>
   ((\<exists>msg. check_subjects subjects n_subjects = Inl (ValueError msg)) \<longleftrightarrow>
      (\<exists>s \<in> set subjects. s < 0 \<or> n_subjects \<le> s)) \<and>
   (\<forall>e. check_subjects subjects n_subjects = Inl e \<longrightarrow> (\<exists>msg. e = ValueError msg))"
proof -
  let ?u = "np_setdiff1d subjects (np_arange n_subjects)"
  have "?u = [] \<longleftrightarrow> set ?u = {}" by simp
  also have "\<dots> \<longleftrightarrow> (\<forall>s \<in> set subjects. 0 \<le> s \<and> s < n_subjects)"
    unfolding unknown_subjects_set by auto
  finally have u: "?u = [] \<longleftrightarrow> (\<forall>s \<in> set subjects. 0 \<le> s \<and> s < n_subjects)" .
  have ex: "(\<exists>s \<in> set subjects. s < 0 \<or> n_subjects \<le> s) \<longleftrightarrow> ?u \<noteq> []"
    unfolding u by (meson not_less)
  show ?thesis
  proof (cases "?u = []")
    case True
    then have c: "check_subjects subjects n_subjects = Inr ()"
      by (simp add: check_subjects_def Let_def)
    show ?thesis unfolding ex unfolding c using True u by simp
  next
    case False
    then have c: "check_subjects subjects n_subjects =
        Inl (ValueError (unknown_message n_subjects (str_join '', '' (map str_int ?u))))"
      by (simp add: check_subjects_def Let_def)
    show ?thesis unfolding ex unfolding c using False u by simp
  qed
qed

theorem check_subjects_raises_iff_witness:
  "check_subjects [0, 2, 2] 3 = Inr () \<and>
   (\<exists>msg. check_subjects [4, -1] 3 = Inl (ValueError msg)) \<and>
   check_subjects [] 0 = Inr ()"
  using check_subjects_raises_iff [of "[0, 2, 2]" 3] check_subjects_raises_iff [of "[4, -1]" 3]
    check_subjects_raises_iff [of "[]" 0]
  by simp














section \<open>The file fetcher\<close>

lemma fetch_one_cached_branch:
  "op_isfile w (op_join path f) \<Longrightarrow>
     fetch_one ff f hashsum path False w = (Inr (op_join path f), w)"
  by (simp add: fetch_one_def Let_def)

text \<open>The three steps of the download branch, named.\<close>

lemma fetch_one_download_branch:
  assumes "\<not> op_isfile w (op_join path f) \<or> force"
    and "(if op_isfile w (op_join path f) then os_remove (op_join path f) w else (Inr (), w)) = (a1, w1)"
    and "(if \<not> op_isdir w1 (op_dirname (op_join path f))
          then os_makedirs (op_dirname (op_join path f)) w1 else (Inr (), w1)) = (a2, w2)"
    and "ff (BASE_URL @ ''/'' @ f) (op_join path f) (Some hashsum) SHA1 w2 = (a3, w3)"
  shows "fetch_one ff f hashsum path force w =
           (case a1 of Inl err \<Rightarrow> (Inl err, w1)
            | Inr _ \<Rightarrow> (case a2 of Inl err \<Rightarrow> (Inl err, w2)
                        | Inr _ \<Rightarrow> (case a3 of Inl err \<Rightarrow> (Inl err, w3)
                                    | Inr _ \<Rightarrow> (Inr (op_join path f), w3))))"
proof -
  have "fetch_one ff f hashsum path force w =
      (case (a1, w1) of
              (Inl err, w1) \<Rightarrow> (Inl err, w1)
            | (Inr _, w1) \<Rightarrow>
                (case (if \<not> op_isdir w1 (op_dirname (op_join path f))
                       then os_makedirs (op_dirname (op_join path f)) w1 else (Inr (), w1)) of
                   (Inl err, w2) \<Rightarrow> (Inl err, w2)
                 | (Inr _, w2) \<Rightarrow>
                     (case ff (BASE_URL @ ''/'' @ f) (op_join path f) (Some hashsum) SHA1 w2 of
                        (Inl err, w3) \<Rightarrow> (Inl err, w3)
                      | (Inr _, w3) \<Rightarrow> (Inr (op_join path f), w3))))"
    unfolding fetch_one_def Let_def assms(2)[symmetric] using assms(1) by (simp only: if_True)
  then show ?thesis
    using assms(3,4) by (cases a1; cases a2; cases a3) simp_all
qed


lemma fetch_one_success_dest:
  assumes ff: "\<forall>url dst hs ht w0 w0'. ff url dst hs ht w0 = (Inr (), w0') \<longrightarrow> op_isfile w0' dst"
    and r: "fetch_one ff f hashsum path force w = (Inr d, w')"
  shows "d = op_join path f \<and> op_isfile w' (op_join path f)"
proof (cases "\<not> op_isfile w (op_join path f) \<or> force")
  case False
  then have "fetch_one ff f hashsum path force w = (Inr (op_join path f), w)"
    by (simp add: fetch_one_def Let_def)
  with r False show ?thesis by simp
next
  case True
  obtain a1 w1 where s1:
    "(if op_isfile w (op_join path f) then os_remove (op_join path f) w else (Inr (), w)) = (a1, w1)"
    by (cases "(if op_isfile w (op_join path f) then os_remove (op_join path f) w else (Inr (), w))")
  obtain a2 w2 where s2:
    "(if \<not> op_isdir w1 (op_dirname (op_join path f))
      then os_makedirs (op_dirname (op_join path f)) w1 else (Inr (), w1)) = (a2, w2)"
    by (cases "(if \<not> op_isdir w1 (op_dirname (op_join path f))
      then os_makedirs (op_dirname (op_join path f)) w1 else (Inr (), w1))")
  obtain a3 w3 where s3:
    "ff (BASE_URL @ ''/'' @ f) (op_join path f) (Some hashsum) SHA1 w2 = (a3, w3)"
    by (cases "ff (BASE_URL @ ''/'' @ f) (op_join path f) (Some hashsum) SHA1 w2")
  note eq = fetch_one_download_branch [where ff = ff and w = w and ?w1.0 = w1 and ?w2.0 = w2 and ?w3.0 = w3,
      OF True s1 s2 s3]
  from r eq have "a3 = Inr () \<and> w3 = w' \<and> d = op_join path f"
    by (cases a1; cases a2; cases a3) simp_all
  with s3 ff show ?thesis by blast
qed

text \<open>
  Claim C1. With \<^verbatim>\<open>force_update\<close> false and a file already at the joined path of
  directory and file name, \<^verbatim>\<open>_fetch_one\<close> returns that path and leaves the world as it
  was: no request is logged, no file or directory changes, and the downloader (any
  downloader) is not called, whatever the content of the file and the expected checksum.
  In particular, with a downloader that leaves a file at its destination when it
  succeeds, a second call after a successful first one returns the same path and leaves
  the world, and so the request log, as the first call left it.
\<close>

theorem fetch_one_cached:
  "(op_isfile w (op_join path f) \<longrightarrow>
      fetch_one ff f hashsum path False w = (Inr (op_join path f), w)) \<and>
   ((\<forall>url dst hs ht w0 w0'. ff url dst hs ht w0 = (Inr (), w0') \<longrightarrow> op_isfile w0' dst) \<longrightarrow>
    fetch_one ff f hashsum path False w = (Inr d, w1) \<longrightarrow>
      fetch_one ff f hashsum path False w1 = (Inr d, w1))"
proof (intro conjI impI)
  assume "op_isfile w (op_join path f)"
  then show "fetch_one ff f hashsum path False w = (Inr (op_join path f), w)"
    by (rule fetch_one_cached_branch)
next
  assume ff: "\<forall>url dst hs ht w0 w0'. ff url dst hs ht w0 = (Inr (), w0') \<longrightarrow> op_isfile w0' dst"
    and r: "fetch_one ff f hashsum path False w = (Inr d, w1)"
  from fetch_one_success_dest [OF ff r]
  have d: "d = op_join path f" and "op_isfile w1 (op_join path f)" by simp_all
  then show "fetch_one ff f hashsum path False w1 = (Inr d, w1)"
    by (simp add: fetch_one_cached_branch)
qed

lemma fetch_file_leaves_file:
  "fetch_file e url dst hs ht w0 = (Inr (), w0') \<Longrightarrow> op_isfile w0' dst"
  by (cases "remote e url") (auto simp: fetch_file_def Let_def op_isfile_def split: if_splits)

lemma example_first_fetch:
  "fetch_one (fetch_file example_env) ''SC4001E0-PSG.edf'' ''sha1:edf-bytes'' ''/data'' False empty_world =
     (Inr ''/data/SC4001E0-PSG.edf'',
      \<lparr>files = [''/data/SC4001E0-PSG.edf'' \<mapsto> ''edf-bytes''],
       dirs = {''/data'', ''/''},
       requests = [''https://physionet.org/pn4/sleep-edfx//SC4001E0-PSG.edf'']\<rparr>)"
  by (simp add: fetch_one_def fetch_file_def example_env_def example_remote_def example_hashfunc_def
      empty_world_def Let_def op_join_def op_isfile_def op_isdir_def op_dirname_def os_makedirs_def
      ancestors_def BASE_URL_def insert_commute)

theorem fetch_one_cached_witness:
  "op_isfile cached_world (op_join ''/data'' ''SC4001E0-PSG.edf'') \<and>
   fetch_one (fetch_file example_env) ''SC4001E0-PSG.edf'' ''sha1:edf-bytes'' ''/data'' False cached_world =
     (Inr ''/data/SC4001E0-PSG.edf'', cached_world) \<and>
   hashfunc example_env SHA1 ''stale'' \<noteq> ''sha1:edf-bytes'' \<and>
   (\<exists>w1. fetch_one (fetch_file example_env) ''SC4001E0-PSG.edf'' ''sha1:edf-bytes'' ''/data'' False
            empty_world = (Inr ''/data/SC4001E0-PSG.edf'', w1) \<and>
         requests w1 = [''https://physionet.org/pn4/sleep-edfx//SC4001E0-PSG.edf''] \<and>
         fetch_one (fetch_file example_env) ''SC4001E0-PSG.edf'' ''sha1:edf-bytes'' ''/data'' False w1 =
           (Inr ''/data/SC4001E0-PSG.edf'', w1))"
proof -
  let ?w1 = "\<lparr>files = [''/data/SC4001E0-PSG.edf'' \<mapsto> ''edf-bytes''],
       dirs = {''/data'', ''/''},
       requests = [''https://physionet.org/pn4/sleep-edfx//SC4001E0-PSG.edf'']\<rparr>"
  have c: "op_isfile cached_world (op_join ''/data'' ''SC4001E0-PSG.edf'')"
    by (simp add: op_isfile_def cached_world_def op_join_def)
  have j: "op_join ''/data'' ''SC4001E0-PSG.edf'' = ''/data/SC4001E0-PSG.edf''"
    by (simp add: op_join_def)
  have h: "hashfunc example_env SHA1 ''stale'' \<noteq> ''sha1:edf-bytes''"
    by (simp add: example_env_def example_hashfunc_def)
  have ff: "\<forall>url dst hs ht w0 w0'. fetch_file example_env url dst hs ht w0 = (Inr (), w0') \<longrightarrow> op_isfile w0' dst"
    using fetch_file_leaves_file by blast
  have cached: "fetch_one (fetch_file example_env) ''SC4001E0-PSG.edf'' ''sha1:edf-bytes'' ''/data'' False
      cached_world = (Inr ''/data/SC4001E0-PSG.edf'', cached_world)"
    using c fetch_one_cached [where w = cached_world and path = "''/data''" and f = "''SC4001E0-PSG.edf''"
        and ff = "fetch_file example_env" and hashsum = "''sha1:edf-bytes''"]
    by (simp add: j)
  have second: "fetch_one (fetch_file example_env) ''SC4001E0-PSG.edf'' ''sha1:edf-bytes'' ''/data'' False
      ?w1 = (Inr ''/data/SC4001E0-PSG.edf'', ?w1)"
    using ff example_first_fetch
      fetch_one_cached [where w = empty_world and path = "''/data''" and f = "''SC4001E0-PSG.edf''"
        and ff = "fetch_file example_env" and hashsum = "''sha1:edf-bytes''"
        and d = "''/data/SC4001E0-PSG.edf''" and ?w1.0 = ?w1]
    by blast
  show ?thesis
    using c h cached second example_first_fetch by simp
qed

lemma fetch_file_mismatch:
  assumes "remote e url = Some bytes" "hashfunc e ht bytes \<noteq> h"
  shows "fetch_file e url dst (Some h) ht w = (Inl IntegrityError, w\<lparr>requests := requests w @ [url]\<rparr>)"
  using assms by (auto simp: fetch_file_def Let_def)

lemma os_remove_requests: "requests (snd (os_remove p w)) = requests w"
  by (simp add: os_remove_def)

lemma os_makedirs_requests: "requests (snd (os_makedirs d w)) = requests w"
  by (simp add: os_makedirs_def)

lemma os_remove_Inr: "os_remove p w = (Inr u, w') \<Longrightarrow> \<not> op_isfile w' p \<and> dirs w' = dirs w"
  by (auto simp: os_remove_def op_isfile_def split: if_splits)

lemma os_makedirs_Inr:
  "os_makedirs d w = (Inr u, w') \<Longrightarrow> op_isdir w' d \<and> files w' = files w"
  by (auto simp: os_makedirs_def op_isdir_def split: if_splits)

text \<open>
  Claim C2. Whenever a call of \<^verbatim>\<open>_fetch_one\<close> issues its request and the bytes served for
  the URL do not hash (SHA1) to the expected checksum, the call ends with the integrity
  error; afterwards no file stands at the destination, so the received bytes are not
  there to be taken for a cached copy, and a following call with \<^verbatim>\<open>force_update\<close> false
  downloads again and ends with the integrity error too.
\<close>

theorem fetch_one_integrity:
  assumes bytes: "remote e (BASE_URL @ ''/'' @ f) = Some bytes"
    and bad: "hashfunc e SHA1 bytes \<noteq> hashsum"
    and req: "requests (snd (fetch_one (fetch_file e) f hashsum path force w)) \<noteq> requests w"
  shows "fst (fetch_one (fetch_file e) f hashsum path force w) = Inl IntegrityError \<and>
         \<not> op_isfile (snd (fetch_one (fetch_file e) f hashsum path force w)) (op_join path f) \<and>
         fst (fetch_one (fetch_file e) f hashsum path False
                (snd (fetch_one (fetch_file e) f hashsum path force w))) = Inl IntegrityError"
proof -
  let ?dest = "op_join path f"
  let ?url = "BASE_URL @ ''/'' @ f"
  have dl: "\<not> op_isfile w ?dest \<or> force"
  proof (rule ccontr)
    assume "\<not> ?thesis"
    then have "fetch_one (fetch_file e) f hashsum path force w = (Inr ?dest, w)"
      by (simp add: fetch_one_def Let_def)
    with req show False by simp
  qed
  obtain a1 w1 where s1:
    "(if op_isfile w ?dest then os_remove ?dest w else (Inr (), w)) = (a1, w1)"
    by (cases "(if op_isfile w ?dest then os_remove ?dest w else (Inr (), w))")
  obtain a2 w2 where s2:
    "(if \<not> op_isdir w1 (op_dirname ?dest)
      then os_makedirs (op_dirname ?dest) w1 else (Inr (), w1)) = (a2, w2)"
    by (cases "(if \<not> op_isdir w1 (op_dirname ?dest)
      then os_makedirs (op_dirname ?dest) w1 else (Inr (), w1))")
  let ?w3 = "w2\<lparr>requests := requests w2 @ [?url]\<rparr>"
  have s3: "fetch_file e ?url ?dest (Some hashsum) SHA1 w2 = (Inl IntegrityError, ?w3)"
    using bytes bad by (rule fetch_file_mismatch)
  note eq = fetch_one_download_branch [where ff = "fetch_file e" and w = w and ?w1.0 = w1
      and ?w2.0 = w2 and ?w3.0 = ?w3, OF dl s1 s2 s3]
  have r1: "requests w1 = requests w"
    using s1 os_remove_requests [of ?dest w] by (auto split: if_splits)
  have r2: "requests w2 = requests w1"
    using s2 os_makedirs_requests [of "op_dirname ?dest" w1] by (auto split: if_splits)
  obtain u1 where a1: "a1 = Inr u1"
    using eq req r1 by (cases a1) auto
  obtain u2 where a2: "a2 = Inr u2"
    using eq req r1 r2 a1 by (cases a2) auto
  have res: "fetch_one (fetch_file e) f hashsum path force w = (Inl IntegrityError, ?w3)"
    using eq a1 a2 by simp
  have nf1: "\<not> op_isfile w1 ?dest"
    using s1 a1 os_remove_Inr [of ?dest w u1 w1] by (auto split: if_splits)
  have f2: "files w2 = files w1" and d2: "op_isdir w2 (op_dirname ?dest)"
    using s2 a2 os_makedirs_Inr [of "op_dirname ?dest" w1 u2 w2] by (auto split: if_splits)
  have nf3: "\<not> op_isfile ?w3 ?dest"
    using nf1 f2 by (simp add: op_isfile_def)
  have d3: "op_isdir ?w3 (op_dirname ?dest)"
    using d2 by (simp add: op_isdir_def)
  let ?w4 = "?w3\<lparr>requests := requests ?w3 @ [?url]\<rparr>"
  have s3': "fetch_file e ?url ?dest (Some hashsum) SHA1 ?w3 = (Inl IntegrityError, ?w4)"
    using bytes bad by (rule fetch_file_mismatch)
  have again: "fetch_one (fetch_file e) f hashsum path False ?w3 = (Inl IntegrityError, ?w4)"
    using fetch_one_download_branch [where ff = "fetch_file e" and w = ?w3 and ?w1.0 = ?w3
      and ?w2.0 = ?w3 and ?w3.0 = ?w4 and ?a1.0 = "Inr ()" and ?a2.0 = "Inr ()" and force = False
      and path = path and f = f and hashsum = hashsum and ?a3.0 = "Inl IntegrityError"]
      nf3 d3 s3' by simp
  show ?thesis
    unfolding res using nf3 again by simp
qed


lemma example_forced_fetch:
  "fetch_one (fetch_file example_env) ''SC4001E0-PSG.edf'' ''sha1:other'' ''/data'' True cached_world =
     (Inl IntegrityError,
      \<lparr>files = Map.empty, dirs = {''/data''},
       requests = [''https://physionet.org/pn4/sleep-edfx//SC4001E0-PSG.edf'']\<rparr>)"
  by (simp add: fetch_one_def fetch_file_def example_env_def example_remote_def example_hashfunc_def
      cached_world_def Let_def op_join_def op_isfile_def op_isdir_def op_dirname_def os_remove_def
      BASE_URL_def)

theorem fetch_one_integrity_witness:
  "remote example_env (BASE_URL @ ''/'' @ ''SC4001E0-PSG.edf'') = Some ''edf-bytes'' \<and>
   hashfunc example_env SHA1 ''edf-bytes'' \<noteq> ''sha1:other'' \<and>
   op_isfile cached_world (op_join ''/data'' ''SC4001E0-PSG.edf'') \<and>
   requests (snd (fetch_one (fetch_file example_env) ''SC4001E0-PSG.edf'' ''sha1:other'' ''/data'' True
                    cached_world)) \<noteq> requests cached_world \<and>
   fst (fetch_one (fetch_file example_env) ''SC4001E0-PSG.edf'' ''sha1:other'' ''/data'' True cached_world) =
     Inl IntegrityError \<and>
   \<not> op_isfile (snd (fetch_one (fetch_file example_env) ''SC4001E0-PSG.edf'' ''sha1:other'' ''/data'' True
                       cached_world)) (op_join ''/data'' ''SC4001E0-PSG.edf'') \<and>
   fst (fetch_one (fetch_file example_env) ''SC4001E0-PSG.edf'' ''sha1:other'' ''/data'' False
          (snd (fetch_one (fetch_file example_env) ''SC4001E0-PSG.edf'' ''sha1:other'' ''/data'' True
                  cached_world))) = Inl IntegrityError"
proof -
  have b: "remote example_env (BASE_URL @ ''/'' @ ''SC4001E0-PSG.edf'') = Some ''edf-bytes''"
    by (simp add: example_env_def example_remote_def BASE_URL_def)
  have h: "hashfunc example_env SHA1 ''edf-bytes'' \<noteq> ''sha1:other''"
    by (simp add: example_env_def example_hashfunc_def)
  have c: "op_isfile cached_world (op_join ''/data'' ''SC4001E0-PSG.edf'')"
    by (simp add: op_isfile_def cached_world_def op_join_def)
  have r: "requests (snd (fetch_one (fetch_file example_env) ''SC4001E0-PSG.edf'' ''sha1:other'' ''/data''
      True cached_world)) \<noteq> requests cached_world"
    unfolding example_forced_fetch by (simp add: cached_world_def)
  show ?thesis
    using b h c r fetch_one_integrity [OF b h r] by simp
qed

section \<open>The path resolver\<close>

text \<open>
  Claim C9. With no explicit path and no value for the key in the environment or in the
  persisted configuration, \<^verbatim>\<open>_data_path\<close> returns the default user-data directory
  \<^verbatim>\<open>mne_data\<close> under the home directory, joined with the fixed name
  \<^verbatim>\<open>physionet-sleep-data\<close>; for a home directory that is not empty and does not end in a
  slash this is the string \<^verbatim>\<open><home>/mne_data/physionet-sleep-data\<close>.
\<close>

theorem data_path_default:
  assumes "environ e ''PHYSIONET_SLEEP_PATH'' = None" and "config e ''PHYSIONET_SLEEP_PATH'' = None"
  shows "data_path e None force_update update_path =
           op_join (op_join (home e) ''mne_data'') ''physionet-sleep-data'' \<and>
         (home e \<noteq> [] \<and> last (home e) \<noteq> CHR ''/'' \<longrightarrow>
            data_path e None force_update update_path = home e @ ''/mne_data/physionet-sleep-data'')"
  using assms by (simp add: data_path_def get_path_def get_config_def op_join_def Let_def)

theorem data_path_default_witness:
  "environ example_env ''PHYSIONET_SLEEP_PATH'' = None \<and>
   config example_env ''PHYSIONET_SLEEP_PATH'' = None \<and>
   home example_env \<noteq> [] \<and> last (home example_env) \<noteq> CHR ''/'' \<and>
   data_path example_env None False None = ''/home/user/mne_data/physionet-sleep-data''"
proof -
  have a: "environ example_env ''PHYSIONET_SLEEP_PATH'' = None"
    and b: "config example_env ''PHYSIONET_SLEEP_PATH'' = None"
    and c: "home example_env = ''/home/user''"
    by (simp_all add: example_env_def)
  show ?thesis
    using a b data_path_default [OF a b, of False None] by (simp add: c op_join_def)
qed

section \<open>The metadata builders: dependency check and the write of the CSV file\<close>

lemma inside_join: "inside tmp (op_join tmp (x # xs))" if "x \<noteq> CHR ''/''"
  using that by (auto simp: inside_def op_join_def)

lemma rmtree_files: "\<not> inside d p \<Longrightarrow> files (rmtree d w) p = files w p"
  by (simp add: rmtree_def)

lemma stays_insideD:
  "stays_inside ff \<Longrightarrow> ff url dst hs ht w = (a, w') \<Longrightarrow> inside d dst \<Longrightarrow> \<not> inside d p \<Longrightarrow>
     files w' p = files w p"
  unfolding stays_inside_def by (metis snd_conv)

lemma fetch_file_stays_inside: "stays_inside (fetch_file e)"
  unfolding stays_inside_def
  by (auto simp: fetch_file_def Let_def split: option.splits)

lemma age_body_csv:
  assumes ff: "stays_inside ff" and out: "\<not> inside tmp csv"
    and r: "age_body ff pd tmp csv w = (res, w')"
  shows "(res \<noteq> Inr () \<longrightarrow> files w' csv = files w csv) \<and>
         (res = Inr () \<longrightarrow> (\<exists>m s data. age_table pd m s = Inr data \<and>
                                  files w' csv = Some (to_csv_age pd data)))"
proof -
  obtain a1 w1 where s1: "ff (BASE_URL @ ''SHA1SUMS'') (op_join tmp ''sha1sums'') None MD5 w = (a1, w1)"
    by (cases "ff (BASE_URL @ ''SHA1SUMS'') (op_join tmp ''sha1sums'') None MD5 w")
  obtain a2 w2 where s2: "ff (BASE_URL @ ''SC-subjects.xls'') (op_join tmp ''SC-subjects.xls'')
        (Some ''0ba6650892c5d33a8e2b3f62ce1cc9f30438c54f'') SHA1 w1 = (a2, w2)"
    by (cases "ff (BASE_URL @ ''SC-subjects.xls'') (op_join tmp ''SC-subjects.xls'')
        (Some ''0ba6650892c5d33a8e2b3f62ce1cc9f30438c54f'') SHA1 w1")
  have i1: "inside tmp (op_join tmp ''sha1sums'')" by (rule inside_join) simp
  have i2: "inside tmp (op_join tmp ''SC-subjects.xls'')" by (rule inside_join) simp
  have f1: "files w1 csv = files w csv" using stays_insideD [OF ff s1 i1 out] .
  have f2: "files w2 csv = files w1 csv" using stays_insideD [OF ff s2 i2 out] .
  show ?thesis
  proof (cases a1)
    case (Inl err)
    with r s1 f1 show ?thesis by (auto simp: age_body_def Let_def)
  next
    case a1: (Inr u1)
    show ?thesis
    proof (cases a2)
      case (Inl err)
      with r s1 s2 a1 f1 f2 show ?thesis by (auto simp: age_body_def Let_def)
    next
      case a2: (Inr u2)
      show ?thesis
      proof (cases "age_table pd (files w2 (op_join tmp ''sha1sums'')) (files w2 (op_join tmp ''SC-subjects.xls''))")
        case (Inl err)
        with r s1 s2 a1 a2 f1 f2 show ?thesis by (auto simp: age_body_def Let_def)
      next
        case (Inr data)
        with r s1 s2 a1 a2 have "res = Inr ()" and "files w' csv = Some (to_csv_age pd data)"
          by (auto simp: age_body_def Let_def)
        with Inr show ?thesis by blast
      qed
    qed
  qed
qed

lemma temazepam_body_csv:
  assumes ff: "stays_inside ff" and out: "\<not> inside tmp csv"
    and r: "temazepam_body ff pd tmp csv w = (res, w')"
  shows "(res \<noteq> Inr () \<longrightarrow> files w' csv = files w csv) \<and>
         (res = Inr () \<longrightarrow> (\<exists>m s data. temazepam_table pd m s = Inr data \<and>
                                  files w' csv = Some (to_csv_tem pd data)))"
proof -
  obtain a1 w1 where s1: "ff (BASE_URL @ ''SHA1SUMS'') (op_join tmp ''sha1sums'') None MD5 w = (a1, w1)"
    by (cases "ff (BASE_URL @ ''SHA1SUMS'') (op_join tmp ''sha1sums'') None MD5 w")
  obtain a2 w2 where s2: "ff (BASE_URL @ ''ST-subjects.xls'') (op_join tmp ''ST-subjects.xls'')
        (Some ''f52fffe5c18826a2bd4c5d5cb375bb4a9008c885'') SHA1 w1 = (a2, w2)"
    by (cases "ff (BASE_URL @ ''ST-subjects.xls'') (op_join tmp ''ST-subjects.xls'')
        (Some ''f52fffe5c18826a2bd4c5d5cb375bb4a9008c885'') SHA1 w1")
  have i1: "inside tmp (op_join tmp ''sha1sums'')" by (rule inside_join) simp
  have i2: "inside tmp (op_join tmp ''ST-subjects.xls'')" by (rule inside_join) simp
  have f1: "files w1 csv = files w csv" using stays_insideD [OF ff s1 i1 out] .
  have f2: "files w2 csv = files w1 csv" using stays_insideD [OF ff s2 i2 out] .
  show ?thesis
  proof (cases a1)
    case (Inl err)
    with r s1 f1 show ?thesis by (auto simp: temazepam_body_def Let_def)
  next
    case a1: (Inr u1)
    show ?thesis
    proof (cases a2)
      case (Inl err)
      with r s1 s2 a1 f1 f2 show ?thesis by (auto simp: temazepam_body_def Let_def)
    next
      case a2: (Inr u2)
      show ?thesis
      proof (cases "temazepam_table pd (files w2 (op_join tmp ''sha1sums''))
                      (files w2 (op_join tmp ''ST-subjects.xls''))")
        case (Inl err)
        with r s1 s2 a1 a2 f1 f2 show ?thesis by (auto simp: temazepam_body_def Let_def)
      next
        case (Inr data)
        with r s1 s2 a1 a2 have "res = Inr ()" and "files w' csv = Some (to_csv_tem pd data)"
          by (auto simp: temazepam_body_def Let_def)
        with Inr show ?thesis by blast
      qed
    qed
  qed
qed

lemma update_age_csv:
  assumes ff: "stays_inside ff" and out: "\<not> inside (tempdir e) csv"
    and r: "update_sleep_age_records ff e csv w = (res, w')"
  shows "(res \<noteq> Inr () \<longrightarrow> files w' csv = files w csv) \<and>
         (res = Inr () \<longrightarrow> (\<exists>pd m s data. check_pandas_installed e = Inr pd \<and>
             age_table pd m s = Inr data \<and> files w' csv = Some (to_csv_age pd data)))"
proof (cases "check_pandas_installed e")
  case (Inl err)
  with r show ?thesis by (auto simp: update_sleep_age_records_def)
next
  case (Inr pd)
  let ?tmp = "tempdir e"
  let ?w0 = "w\<lparr>dirs := insert ?tmp (dirs w)\<rparr>"
  obtain res0 w0' where b: "age_body ff pd ?tmp csv ?w0 = (res0, w0')"
    by (cases "age_body ff pd ?tmp csv ?w0")
  from r Inr b have res: "res = res0" and w': "w' = rmtree ?tmp w0'"
    by (simp_all add: update_sleep_age_records_def TempDir_def)
  note body = age_body_csv [OF ff out b]
  have "files w' csv = files w0' csv" unfolding w' using out by (rule rmtree_files)
  with body res Inr show ?thesis by auto
qed

lemma update_temazepam_csv:
  assumes ff: "stays_inside ff" and out: "\<not> inside (tempdir e) csv"
    and r: "update_sleep_temazepam_records ff e csv w = (res, w')"
  shows "(res \<noteq> Inr () \<longrightarrow> files w' csv = files w csv) \<and>
         (res = Inr () \<longrightarrow> (\<exists>pd m s data. check_pandas_installed e = Inr pd \<and>
             temazepam_table pd m s = Inr data \<and> files w' csv = Some (to_csv_tem pd data)))"
proof (cases "check_pandas_installed e")
  case (Inl err)
  with r show ?thesis by (auto simp: update_sleep_temazepam_records_def)
next
  case (Inr pd)
  let ?tmp = "tempdir e"
  let ?w0 = "w\<lparr>dirs := insert ?tmp (dirs w)\<rparr>"
  obtain res0 w0' where b: "temazepam_body ff pd ?tmp csv ?w0 = (res0, w0')"
    by (cases "temazepam_body ff pd ?tmp csv ?w0")
  from r Inr b have res: "res = res0" and w': "w' = rmtree ?tmp w0'"
    by (simp_all add: update_sleep_temazepam_records_def TempDir_def)
  note body = temazepam_body_csv [OF ff out b]
  have "files w' csv = files w0' csv" unfolding w' using out by (rule rmtree_files)
  with body res Inr show ?thesis by auto
qed

text \<open>
  Claim C7. For both builders, with a downloader that changes no file outside the directory
  of its destination and a CSV path outside the temporary directory: when the call fails, at
  the dependency check, a download, the parsing or the transformation, the file at the
  CSV path is what it was before the call; when the call succeeds, the file holds the
  rendering of a table that the whole pipeline has produced. The write is the last step.
\<close>

theorem csv_written_last:
  assumes "stays_inside ff" and "\<not> inside (tempdir e) csv"
  shows "(fst (update_sleep_age_records ff e csv w) \<noteq> Inr () \<longrightarrow>
            files (snd (update_sleep_age_records ff e csv w)) csv = files w csv) \<and>
         (fst (update_sleep_age_records ff e csv w) = Inr () \<longrightarrow>
            (\<exists>pd m s data. check_pandas_installed e = Inr pd \<and> age_table pd m s = Inr data \<and>
               files (snd (update_sleep_age_records ff e csv w)) csv = Some (to_csv_age pd data))) \<and>
         (fst (update_sleep_temazepam_records ff e csv w) \<noteq> Inr () \<longrightarrow>
            files (snd (update_sleep_temazepam_records ff e csv w)) csv = files w csv) \<and>
         (fst (update_sleep_temazepam_records ff e csv w) = Inr () \<longrightarrow>
            (\<exists>pd m s data. check_pandas_installed e = Inr pd \<and> temazepam_table pd m s = Inr data \<and>
               files (snd (update_sleep_temazepam_records ff e csv w)) csv = Some (to_csv_tem pd data)))"
  using update_age_csv [OF assms, of w "fst (update_sleep_age_records ff e csv w)"
      "snd (update_sleep_age_records ff e csv w)"]
    update_temazepam_csv [OF assms, of w "fst (update_sleep_temazepam_records ff e csv w)"
      "snd (update_sleep_temazepam_records ff e csv w)"]
  by simp

text \<open>
  Claim C8. For both builders, when the dependency check fails (as it does when the pandas
  library is absent, with the dependency error) the call ends with that error and the
  world as it was: nothing is requested from the network and nothing is written. So a
  call that has issued a request is one whose dependency check succeeded.
\<close>

theorem dependency_check_first:
  "(check_pandas_installed e = Inl err \<longrightarrow>
      update_sleep_age_records ff e csv w = (Inl err, w) \<and>
      update_sleep_temazepam_records ff e csv w = (Inl err, w)) \<and>
   (pandas_module e = None \<longrightarrow>
      update_sleep_age_records ff e csv w = (Inl DependencyMissing, w) \<and>
      update_sleep_temazepam_records ff e csv w = (Inl DependencyMissing, w)) \<and>
   (requests (snd (update_sleep_age_records ff e csv w)) \<noteq> requests w \<longrightarrow>
      (\<exists>pd. check_pandas_installed e = Inr pd)) \<and>
   (requests (snd (update_sleep_temazepam_records ff e csv w)) \<noteq> requests w \<longrightarrow>
      (\<exists>pd. check_pandas_installed e = Inr pd))"
proof -
  have a: "update_sleep_age_records ff e csv w = (Inl err', w) \<and>
      update_sleep_temazepam_records ff e csv w = (Inl err', w)"
    if "check_pandas_installed e = Inl err'" for err'
    using that by (simp add: update_sleep_age_records_def update_sleep_temazepam_records_def)
  have b: "check_pandas_installed e = Inl DependencyMissing" if "pandas_module e = None"
    using that by (simp add: check_pandas_installed_def)
  have c: "\<exists>pd. check_pandas_installed e = Inr pd"
    if "requests (snd (update_sleep_age_records ff e csv w)) \<noteq> requests w \<or>
        requests (snd (update_sleep_temazepam_records ff e csv w)) \<noteq> requests w"
  proof (cases "check_pandas_installed e")
    case (Inl err')
    with a [OF Inl] that show ?thesis by simp
  next
    case (Inr pd)
    then show ?thesis by blast
  qed
  show ?thesis using a b c by blast
qed

lemma example_age_run:
  "fst (update_sleep_age_records (fetch_file example_env) example_env ''/pkg/age_records.csv'' csv_world) = Inr ()"
  "requests (snd (update_sleep_age_records (fetch_file example_env) example_env ''/pkg/age_records.csv''
      csv_world)) = [''https://physionet.org/pn4/sleep-edfx/SHA1SUMS'',
                     ''https://physionet.org/pn4/sleep-edfx/SC-subjects.xls'']"
  "files (snd (update_sleep_age_records (fetch_file example_env) example_env ''/pkg/age_records.csv''
      csv_world)) ''/pkg/age_records.csv'' = Some ''SC4001E0-PSG.edf;SC4001EC-Hypnogram.edf;''"
  by code_simp+

lemma garbled_age_run:
  "fst (update_sleep_age_records (fetch_file garbled_env) garbled_env ''/pkg/age_records.csv'' csv_world) =
     Inl IntegrityError"
  by code_simp

lemma garbled_temazepam_run:
  "fst (update_sleep_temazepam_records (fetch_file garbled_env) garbled_env ''/pkg/age_records.csv'' csv_world) =
     Inl IntegrityError"
  by code_simp

lemma example_temazepam_run:
  "fst (update_sleep_temazepam_records (fetch_file example_env) example_env ''/pkg/age_records.csv''
      csv_world) = Inr ()"
  "requests (snd (update_sleep_temazepam_records (fetch_file example_env) example_env
      ''/pkg/age_records.csv'' csv_world)) = [''https://physionet.org/pn4/sleep-edfx/SHA1SUMS'',
                     ''https://physionet.org/pn4/sleep-edfx/ST-subjects.xls'']"
  by code_simp+

lemma csv_outside: "\<not> inside (tempdir example_env) ''/pkg/age_records.csv''"
  "\<not> inside (tempdir garbled_env) ''/pkg/age_records.csv''"
  by code_simp+


lemma old_csv: "files csv_world ''/pkg/age_records.csv'' = Some ''old-table''"
  by (simp add: csv_world_def)

theorem csv_written_last_witness:
  "stays_inside (fetch_file garbled_env) \<and>
   \<not> inside (tempdir garbled_env) ''/pkg/age_records.csv'' \<and>
   fst (update_sleep_age_records (fetch_file garbled_env) garbled_env ''/pkg/age_records.csv'' csv_world) =
     Inl IntegrityError \<and>
   files (snd (update_sleep_age_records (fetch_file garbled_env) garbled_env ''/pkg/age_records.csv''
                 csv_world)) ''/pkg/age_records.csv'' = Some ''old-table'' \<and>
   fst (update_sleep_temazepam_records (fetch_file garbled_env) garbled_env ''/pkg/age_records.csv''
          csv_world) = Inl IntegrityError \<and>
   files (snd (update_sleep_temazepam_records (fetch_file garbled_env) garbled_env ''/pkg/age_records.csv''
                 csv_world)) ''/pkg/age_records.csv'' = Some ''old-table'' \<and>
   stays_inside (fetch_file example_env) \<and>
   \<not> inside (tempdir example_env) ''/pkg/age_records.csv'' \<and>
   fst (update_sleep_age_records (fetch_file example_env) example_env ''/pkg/age_records.csv'' csv_world) =
     Inr () \<and>
   (\<exists>pd m s data. check_pandas_installed example_env = Inr pd \<and> age_table pd m s = Inr data \<and>
      files (snd (update_sleep_age_records (fetch_file example_env) example_env ''/pkg/age_records.csv''
                    csv_world)) ''/pkg/age_records.csv'' = Some (to_csv_age pd data)) \<and>
   fst (update_sleep_temazepam_records (fetch_file example_env) example_env ''/pkg/age_records.csv''
          csv_world) = Inr () \<and>
   (\<exists>pd m s data. check_pandas_installed example_env = Inr pd \<and> temazepam_table pd m s = Inr data \<and>
      files (snd (update_sleep_temazepam_records (fetch_file example_env) example_env
                    ''/pkg/age_records.csv'' csv_world)) ''/pkg/age_records.csv'' =
        Some (to_csv_tem pd data))"
  using csv_written_last [OF fetch_file_stays_inside csv_outside(2), where w = csv_world]
    csv_written_last [OF fetch_file_stays_inside csv_outside(1), where w = csv_world]
    fetch_file_stays_inside [of garbled_env] fetch_file_stays_inside [of example_env]
    csv_outside garbled_age_run garbled_temazepam_run example_age_run(1) example_temazepam_run(1) old_csv
  by simp

lemma bare_check: "check_pandas_installed bare_env = Inl DependencyMissing"
  "pandas_module bare_env = None"
  by (simp_all add: check_pandas_installed_def bare_env_def)

theorem dependency_check_first_witness:
  "check_pandas_installed bare_env = Inl DependencyMissing \<and>
   pandas_module bare_env = None \<and>
   update_sleep_age_records (fetch_file bare_env) bare_env ''/pkg/age_records.csv'' csv_world =
     (Inl DependencyMissing, csv_world) \<and>
   update_sleep_temazepam_records (fetch_file bare_env) bare_env ''/pkg/age_records.csv'' csv_world =
     (Inl DependencyMissing, csv_world) \<and>
   requests (snd (update_sleep_age_records (fetch_file example_env) example_env ''/pkg/age_records.csv''
                    csv_world)) \<noteq> requests csv_world \<and>
   requests (snd (update_sleep_temazepam_records (fetch_file example_env) example_env
                    ''/pkg/age_records.csv'' csv_world)) \<noteq> requests csv_world \<and>
   (\<exists>pd. check_pandas_installed example_env = Inr pd)"
proof -
  have r: "requests csv_world = []" by (simp add: csv_world_def)
  show ?thesis
    using dependency_check_first [where e = bare_env and err = DependencyMissing
        and ff = "fetch_file bare_env" and csv = "''/pkg/age_records.csv''" and w = csv_world]
      dependency_check_first [where e = example_env and err = DependencyMissing
        and ff = "fetch_file example_env" and csv = "''/pkg/age_records.csv''" and w = csv_world]
      bare_check example_age_run(2) example_temazepam_run(2) r
    by simp
qed

section \<open>The rows of the age table\<close>

lemma those_Some_map: "those xs = Some ys \<Longrightarrow> xs = map Some ys"
  by (induction xs arbitrary: ys) (auto split: option.splits)

lemma format_ids_mem:
  assumes "format_ids mk data = Inr keyed" and "(k, d) \<in> set keyed"
  shows "d \<in> set data \<and> mk d = Some k"
proof -
  from assms(1) obtain ids where t: "those (map mk data) = Some ids" and z: "keyed = zip ids data"
    by (auto simp: format_ids_def split: option.splits)
  from those_Some_map [OF t] have m: "map mk data = map Some ids" .
  then have len: "length ids = length data" by (metis length_map)
  from assms(2) z obtain i where i: "i < length data" "ids ! i = k" "data ! i = d"
    using len by (auto simp: set_zip)
  have "mk (data ! i) = (map mk data) ! i" using i(1) by simp
  also have "\<dots> = Some (ids ! i)" using m i(1) len by simp
  finally show ?thesis using i by auto
qed

lemma left_join_mem:
  assumes "(a, bo) \<in> set (left_join l r)"
  shows "\<exists>k. (k, a) \<in> set l \<and> (\<forall>b. bo = Some b \<longrightarrow> (k, b) \<in> set r)"
proof -
  from assms obtain k a' where ka: "(k, a') \<in> set l"
    and m: "(a, bo) \<in> set (case filter (\<lambda>(k', b). k' = k) r of
                               [] \<Rightarrow> [(a', None)]
                             | ms \<Rightarrow> map (\<lambda>(k', b). (a', Some b)) ms)"
    by (auto simp: left_join_def)
  show ?thesis
  proof (cases "filter (\<lambda>(k', b). k' = k) r")
    case Nil
    with m ka show ?thesis by auto
  next
    case (Cons x xs)
    with m have "(a, bo) \<in> (\<lambda>(k', b). (a', Some b)) ` set (filter (\<lambda>(k', b). k' = k) r)"
      by simp
    then obtain k' b where "(k', b) \<in> set r" "k' = k" "a = a'" "bo = Some b"
      by auto
    with ka show ?thesis by auto
  qed
qed

lemma select_records_mem:
  "(k, sr) \<in> set (select_records pre df) \<Longrightarrow>
     sr \<in> set df \<and> prefix pre (fname sr) \<and> suffix ''edf'' (fname sr) \<and> k = take 6 (fname sr)"
  by (auto simp: select_records_def Let_def)

lemma map_filter_mem:
  "y \<in> set (List.map_filter g xs) \<Longrightarrow> \<exists>x \<in> set xs. g x = Some y"
  by (auto simp: List.map_filter_def)

lemma complete_age_Some:
  assumes "complete_age (d, s) = Some r"
  shows "\<exists>sr. s = Some sr \<and> sc_subject d = Some (a_subject r) \<and> sc_night d = Some (a_night r) \<and>
           sc_age d = Some (a_age r) \<and> sc_sex d = Some (a_sex r) \<and>
           sc_lights_off d = Some (a_lights_off r) \<and> sha sr = Some (a_sha r) \<and> a_fname r = fname sr"
  using assms by (auto split: option.splits)

lemma record_types_mem:
  assumes "record_types data = Inr out" and "r \<in> set out"
  shows "\<exists>r0 \<in> set data. r = r0\<lparr>a_record_type := record_type_of (a_fname r0)\<rparr>"
  using assms by (auto simp: record_types_def split: if_splits)

text \<open>Where a row of the age table comes from.\<close>

lemma age_table_row:
  assumes t: "age_table pd m s = Inr out" and r: "r \<in> set out"
  shows "\<exists>shas rows sr d.
           pd_read (read_csv pd) m = Inr shas \<and> sr \<in> set shas \<and>
           pd_read (read_excel_sc pd) s = Inr rows \<and> d \<in> set rows \<and>
           prefix ''SC'' (fname sr) \<and> suffix ''edf'' (fname sr) \<and>
           take 6 (fname sr) = ''SC4'' @ fmt_02d (a_subject r) @ fmt_1d (a_night r) \<and>
           a_fname r = fname sr \<and> sha sr = Some (a_sha r) \<and>
           sc_subject d = Some (a_subject r) \<and> sc_night d = Some (a_night r) \<and>
           sc_age d = Some (a_age r) \<and> sc_lights_off d = Some (a_lights_off r) \<and>
           map_option (rename_categories age_sex_labels) (sc_sex d) = Some (a_sex r)"
proof -
  from t obtain shas where shas: "pd_read (read_csv pd) m = Inr shas"
    by (cases "pd_read (read_csv pd) m") (simp_all add: age_table_def and_then_def)
  from t shas obtain rows where rows: "pd_read (read_excel_sc pd) s = Inr rows"
    by (cases "pd_read (read_excel_sc pd) s") (simp_all add: age_table_def and_then_def)
  let ?mk = "\<lambda>r. format_id ''SC4'' (sc_subject r) (sc_night r)"
  from t shas rows obtain keyed where
    keyed: "format_ids ?mk (map recode_sex_age rows) = Inr keyed"
    by (cases "format_ids ?mk (map recode_sex_age rows)")
       (simp_all add: age_table_def and_then_def)
  let ?joined = "List.map_filter complete_age (left_join keyed (select_records ''SC'' shas))"
  from t shas rows keyed have rt: "record_types ?joined = Inr out"
    by (simp add: age_table_def and_then_def)
  from record_types_mem [OF rt r] obtain r0 where
    r0: "r0 \<in> set ?joined" and rr: "r = r0\<lparr>a_record_type := record_type_of (a_fname r0)\<rparr>"
    by blast
  from map_filter_mem [OF r0] obtain d' so
    where j: "(d', so) \<in> set (left_join keyed (select_records ''SC'' shas))"
      and c: "complete_age (d', so) = Some r0"
    by auto
  from complete_age_Some [OF c] obtain sr where so: "so = Some sr"
    and f: "sc_subject d' = Some (a_subject r0)" "sc_night d' = Some (a_night r0)"
      "sc_age d' = Some (a_age r0)" "sc_sex d' = Some (a_sex r0)"
      "sc_lights_off d' = Some (a_lights_off r0)" "sha sr = Some (a_sha r0)" "a_fname r0 = fname sr"
    by blast
  from left_join_mem [OF j] so obtain k where k: "(k, d') \<in> set keyed"
    and ks: "(k, sr) \<in> set (select_records ''SC'' shas)"
    by blast
  from format_ids_mem [OF keyed k] have d'in: "d' \<in> set (map recode_sex_age rows)"
    and mk: "?mk d' = Some k" by simp_all
  from d'in obtain d where d: "d \<in> set rows" and d': "d' = recode_sex_age d" by auto
  from mk f have kk: "k = ''SC4'' @ fmt_02d (a_subject r0) @ fmt_1d (a_night r0)" by simp
  note sel = select_records_mem [OF ks]
  have "sc_subject d = Some (a_subject r)" "sc_night d = Some (a_night r)"
    "sc_age d = Some (a_age r)" "sc_lights_off d = Some (a_lights_off r)"
    "map_option (rename_categories age_sex_labels) (sc_sex d) = Some (a_sex r)"
    using f d' rr by (simp_all add: recode_sex_age_def)
  moreover have "take 6 (fname sr) = ''SC4'' @ fmt_02d (a_subject r) @ fmt_1d (a_night r)"
    using sel kk rr by simp
  moreover have "a_fname r = fname sr" "sha sr = Some (a_sha r)" using f rr by simp_all
  ultimately show ?thesis using shas rows sel d by blast
qed









lemma example_age_table:
  "age_table example_pandas (Some ''manifest-bytes'') (Some ''sc-xls-bytes'') = Inr example_age_records"
  by code_simp


section \<open>The recoding of the sex column\<close>

text \<open>Where a row of the temazepam table comes from.\<close>

lemma finish_temazepam_mem:
  assumes "finish_temazepam tab = Inr out" and "r \<in> set out"
  shows "\<exists>i < length tab. r = massage_temazepam (i, tab ! i) \<and> complete_temazepam r"
proof -
  from assms have "r \<in> set (filter complete_temazepam (map massage_temazepam (enumerate 0 tab)))"
    by (auto simp: finish_temazepam_def split: if_splits)
  then obtain ir where ir: "ir \<in> set (enumerate 0 tab)" and r: "r = massage_temazepam ir"
    and c: "complete_temazepam r" by auto
  obtain i t where it: "ir = (i, t)" by (cases ir)
  with ir have "i < length tab" "t = tab ! i" by (auto simp: in_set_enumerate_eq)
  with r c it show ?thesis by auto
qed

lemma temazepam_table_finish:
  assumes "temazepam_table pd m s = Inr out"
  shows "\<exists>sha1_df keyed tab. merge_unstack pd sha1_df keyed = Inr tab \<and> finish_temazepam tab = Inr out"
proof -
  from assms obtain shas where shas: "pd_read (read_csv pd) m = Inr shas"
    by (cases "pd_read (read_csv pd) m") (simp_all add: temazepam_table_def and_then_def)
  from assms shas obtain rows where rows: "pd_read (read_excel_st pd) s = Inr rows"
    by (cases "pd_read (read_excel_st pd) s") (simp_all add: temazepam_table_def and_then_def)
  let ?mk = "\<lambda>r. format_id ''ST7'' (st_subject r) (st_night_nr r)"
  from assms shas rows obtain keyed where keyed: "format_ids ?mk rows = Inr keyed"
    by (cases "format_ids ?mk rows") (simp_all add: temazepam_table_def and_then_def)
  from assms shas rows keyed obtain tab where
    tab: "merge_unstack pd (select_records ''ST'' shas) keyed = Inr tab"
    by (cases "merge_unstack pd (select_records ''ST'' shas) keyed")
       (simp_all add: temazepam_table_def and_then_def)
  from assms shas rows keyed tab have "finish_temazepam tab = Inr out"
    by (simp add: temazepam_table_def and_then_def)
  with tab show ?thesis by blast
qed

text \<open>
  Claim C6. The age builder recodes the sex column with the labels 1 to female and 2 to
  male, the temazepam builder with 1 to male and 2 to female. In the tables they produce,
  the sex of every row is the recoding, with the builder's own labels, of the number that
  the spreadsheet row (age) or the pivoted row (temazepam) of the same subject and night
  holds.
\<close>

theorem sex_recoding:
  "rename_categories age_sex_labels 1 = StrCell ''female'' \<and>
   rename_categories age_sex_labels 2 = StrCell ''male'' \<and>
   rename_categories temazepam_sex_labels 1 = StrCell ''male'' \<and>
   rename_categories temazepam_sex_labels 2 = StrCell ''female'' \<and>
   (age_table pd m s = Inr data \<longrightarrow> r \<in> set data \<longrightarrow>
      (\<exists>rows d c. pd_read (read_excel_sc pd) s = Inr rows \<and> d \<in> set rows \<and>
         sc_subject d = Some (a_subject r) \<and> sc_night d = Some (a_night r) \<and>
         sc_sex d = Some c \<and> a_sex r = rename_categories age_sex_labels c)) \<and>
   (temazepam_table pd m' s' = Inr out \<longrightarrow> r' \<in> set out \<longrightarrow>
      (\<exists>sha1_df keyed tab t c. merge_unstack pd sha1_df keyed = Inr tab \<and> t \<in> set tab \<and>
         r_subject_orig r' = t_subject t \<and> r_night_nr r' = t_night_nr t \<and>
         t_sex t = Some c \<and> r_sex r' = Some (rename_categories temazepam_sex_labels c)))"
proof -
  have labels: "rename_categories age_sex_labels 1 = StrCell ''female''"
    "rename_categories age_sex_labels 2 = StrCell ''male''"
    "rename_categories temazepam_sex_labels 1 = StrCell ''male''"
    "rename_categories temazepam_sex_labels 2 = StrCell ''female''"
    by (simp_all add: rename_categories_def age_sex_labels_def temazepam_sex_labels_def)
  have age: "\<exists>rows d c. pd_read (read_excel_sc pd) s = Inr rows \<and> d \<in> set rows \<and>
         sc_subject d = Some (a_subject r) \<and> sc_night d = Some (a_night r) \<and>
         sc_sex d = Some c \<and> a_sex r = rename_categories age_sex_labels c"
    if t: "age_table pd m s = Inr data" and r: "r \<in> set data"
    using age_table_row [OF t r]
  proof (elim exE conjE)
    fix rows :: "int sc_row list" and d :: "int sc_row"
    assume a: "pd_read (read_excel_sc pd) s = Inr rows" "d \<in> set rows"
      "sc_subject d = Some (a_subject r)" "sc_night d = Some (a_night r)"
      and x: "map_option (rename_categories age_sex_labels) (sc_sex d) = Some (a_sex r)"
    from x obtain c where "sc_sex d = Some c" "a_sex r = rename_categories age_sex_labels c"
      by (cases "sc_sex d") auto
    with a show ?thesis by blast
  qed
  have tem: "\<exists>sha1_df keyed tab t c. merge_unstack pd sha1_df keyed = Inr tab \<and> t \<in> set tab \<and>
         r_subject_orig r' = t_subject t \<and> r_night_nr r' = t_night_nr t \<and>
         t_sex t = Some c \<and> r_sex r' = Some (rename_categories temazepam_sex_labels c)"
    if t: "temazepam_table pd m' s' = Inr out" and r: "r' \<in> set out"
  proof -
    from temazepam_table_finish [OF t] obtain sha1_df keyed tab where
      mu: "merge_unstack pd sha1_df keyed = Inr tab" and fin: "finish_temazepam tab = Inr out"
      by blast
    from finish_temazepam_mem [OF fin r] obtain i where i: "i < length tab"
      and r': "r' = massage_temazepam (i, tab ! i)" and c: "complete_temazepam r'" by blast
    from c have "r_sex r' \<noteq> None" by (simp add: complete_temazepam_def)
    with r' obtain c' where "t_sex (tab ! i) = Some c'"
      "r_sex r' = Some (rename_categories temazepam_sex_labels c')"
      by (cases "t_sex (tab ! i)") (auto simp: massage_temazepam_def)
    moreover have "r_subject_orig r' = t_subject (tab ! i)" "r_night_nr r' = t_night_nr (tab ! i)"
      using r' by (simp_all add: massage_temazepam_def)
    moreover have "tab ! i \<in> set tab" using i by simp
    ultimately show ?thesis using mu by blast
  qed
  show ?thesis using labels age tem by blast
qed

lemma example_temazepam_table:
  "temazepam_table example_pandas (Some ''manifest-bytes'') (Some ''st-xls-bytes'') = Inr example_tem_records"
  by code_simp

theorem sex_recoding_witness:
  "age_table example_pandas (Some ''manifest-bytes'') (Some ''sc-xls-bytes'') = Inr example_age_records \<and>
   example_age_record \<in> set example_age_records \<and>
   (\<exists>rows d c. pd_read (read_excel_sc example_pandas) (Some ''sc-xls-bytes'') = Inr rows \<and> d \<in> set rows \<and>
      sc_subject d = Some (a_subject example_age_record) \<and>
      sc_night d = Some (a_night example_age_record) \<and>
      sc_sex d = Some c \<and> a_sex example_age_record = rename_categories age_sex_labels c) \<and>
   a_sex example_age_record = StrCell ''female'' \<and>
   temazepam_table example_pandas (Some ''manifest-bytes'') (Some ''st-xls-bytes'') =
     Inr example_tem_records \<and>
   example_tem_record \<in> set example_tem_records \<and>
   (\<exists>sha1_df keyed tab t c. merge_unstack example_pandas sha1_df keyed = Inr tab \<and> t \<in> set tab \<and>
      r_subject_orig example_tem_record = t_subject t \<and>
      r_night_nr example_tem_record = t_night_nr t \<and>
      t_sex t = Some c \<and>
      r_sex example_tem_record = Some (rename_categories temazepam_sex_labels c)) \<and>
   r_sex example_tem_record = Some (StrCell ''female'')"
proof -
  have m: "example_age_record \<in> set example_age_records"
    by (simp add: example_age_records_def)
  have m': "example_tem_record \<in> set example_tem_records"
    by (simp add: example_tem_records_def)
  have x: "a_sex example_age_record = StrCell ''female''"
    "r_sex example_tem_record = Some (StrCell ''female'')"
    by (simp_all add: example_age_record_def example_tem_record_def)
  note inst = sex_recoding [where pd = example_pandas and m = "Some ''manifest-bytes''"
      and s = "Some ''sc-xls-bytes''" and data = example_age_records and r = example_age_record
      and m' = "Some ''manifest-bytes''" and s' = "Some ''st-xls-bytes''"
      and out = example_tem_records and r' = example_tem_record]
  from inst example_age_table m have a: "\<exists>rows d c.
      pd_read (read_excel_sc example_pandas) (Some ''sc-xls-bytes'') = Inr rows \<and> d \<in> set rows \<and>
      sc_subject d = Some (a_subject example_age_record) \<and>
      sc_night d = Some (a_night example_age_record) \<and>
      sc_sex d = Some c \<and> a_sex example_age_record = rename_categories age_sex_labels c"
    by simp
  from inst example_temazepam_table m' have b: "\<exists>sha1_df keyed tab t c.
      merge_unstack example_pandas sha1_df keyed = Inr tab \<and> t \<in> set tab \<and>
      r_subject_orig example_tem_record = t_subject t \<and>
      r_night_nr example_tem_record = t_night_nr t \<and>
      t_sex t = Some c \<and>
      r_sex example_tem_record = Some (rename_categories temazepam_sex_labels c)"
    by simp
  show ?thesis
    using example_age_table m a x example_temazepam_table m' b by (intro conjI)
qed

section \<open>The subject numbers of the temazepam table\<close>

lemma finish_temazepam_complete:
  "finish_temazepam tab = Inr out \<Longrightarrow> r \<in> set out \<Longrightarrow> complete_temazepam r"
  using finish_temazepam_mem by blast

lemma finish_temazepam_nothing_dropped:
  assumes "finish_temazepam tab = Inr out" and "length out = length tab"
  shows "map r_subject out = map (\<lambda>i. int i div 2) [0 ..< length tab]"
proof -
  let ?ms = "map massage_temazepam (enumerate 0 tab)"
  from assms(1) have out: "out = filter complete_temazepam ?ms"
    by (auto simp: finish_temazepam_def split: if_splits)
  with assms(2) have "length (filter complete_temazepam ?ms) = length ?ms" by simp
  then have "filter complete_temazepam ?ms = ?ms"
    by (metis filter_True length_filter_less less_irrefl_nat)
  with out have "map r_subject out = map (\<lambda>ir. int (fst ir) div 2) (enumerate 0 tab)"
    by (simp add: massage_temazepam_def split_def)
  also have "\<dots> = map (\<lambda>i. int i div 2) (map fst (enumerate 0 tab))"
    by (simp only: map_map comp_def)
  also have "map fst (enumerate 0 tab) = [0 ..< length tab]" by simp
  finally show ?thesis .
qed

text \<open>
  Claim C5, evaluated where the code departs from it. The subject numbers are assigned
  (\<^verbatim>\<open>index // 2\<close>) before \<^verbatim>\<open>dropna\<close>. In the example table the two rows of the first
  subject lack their recordings and are dropped; the rows that are written carry the
  subject number 1, so the numbers of the CSV file do not start at 0.
\<close>

theorem temazepam_subjects_not_dense:
  "finish_temazepam example_tem_rows = Inr example_tem_records \<and>
   map r_subject example_tem_records = [1, 1] \<and>
   map r_subject_orig example_tem_records = [Some 2, Some 2]"
  by code_simp

end
